theory Spec2Isabelle
  imports Main
begin

section \<open>Python values, exceptions and pandas tables\<close>

text \<open>
  The enrichment script \<^verbatim>\<open>enrich_with_technical_indicators.py\<close> is embedded function
  by function. A Python expression that may raise is a value of \<open>exn + 'r\<close> (\<open>Inl\<close> the
  exception raised, \<open>Inr\<close> the value returned). The classes below \<open>OtherException\<close>
  derive from \<open>Exception\<close>; the last three derive from \<open>BaseException\<close> only, so that an
  \<^verbatim>\<open>except Exception\<close> clause does not catch them.
\<close>

datatype exn =
    ValueError
  | ZeroDivisionError
  | IndexError
  | KeyError
  | OtherException string
  | KeyboardInterrupt
  | SystemExit
  | GeneratorExit

fun is_Exception :: "exn \<Rightarrow> bool" where
  "is_Exception KeyboardInterrupt = False"
| "is_Exception SystemExit = False"
| "is_Exception GeneratorExit = False"
| "is_Exception e = True"

type_synonym 'r py = "exn + 'r"

definition bind_py :: "'r py \<Rightarrow> ('r \<Rightarrow> 's py) \<Rightarrow> 's py" where
  "bind_py m f = (case m of Inl e \<Rightarrow> Inl e | Inr x \<Rightarrow> f x)"

text \<open>\<^verbatim>\<open>try: body  except Exception as e: handler\<close>\<close>

definition try_except_Exception :: "'r py \<Rightarrow> (exn \<Rightarrow> 'r py) \<Rightarrow> 'r py" where
  "try_except_Exception body handler =
     (case body of
        Inl e \<Rightarrow> (if is_Exception e then handler e else Inl e)
      | Inr x \<Rightarrow> Inr x)"

text \<open>
  A table cell is \<open>'a option\<close>: \<open>None\<close> is a missing entry (NaN, which is also what
  \<^verbatim>\<open>np.nan\<close> denotes), \<open>Some x\<close> a number. The numbers themselves stay abstract
  (\<open>'a\<close>): no claim depends on floating-point arithmetic. A Series is the list of its
  cells in index order.
\<close>

abbreviation nan :: "'a option" where
  "nan \<equiv> None"

type_synonym 'a series = "'a option list"

text \<open>
  A DataFrame has a row index (dates as day numbers), column labels, and one cell for every
  (row position, column position): \<open>iat df i j\<close> is \<^verbatim>\<open>df.iat[i, j]\<close>. The labels are a
  flat \<open>Index\<close> or a \<open>MultiIndex\<close> of tuples (level 0, remaining levels).
\<close>

datatype labels = Index "string list" | MultiIndex "(string \<times> string list) list"

record 'a frame =
  index :: "int list"
  columns :: labels
  iat :: "nat \<Rightarrow> nat \<Rightarrow> 'a option"

text \<open>Level 0 of the labels: what \<^verbatim>\<open>name in df.columns\<close> and \<^verbatim>\<open>df[name]\<close> look up.\<close>

fun level0 :: "labels \<Rightarrow> string list" where
  "level0 (Index names) = names"
| "level0 (MultiIndex tuples) = map fst tuples"

text \<open>\<^verbatim>\<open>df.empty\<close>: an axis of length 0.\<close>

definition frame_empty :: "'a frame \<Rightarrow> bool" where
  "frame_empty df = (index df = [] \<or> level0 (columns df) = [])"

definition column_at :: "'a frame \<Rightarrow> nat \<Rightarrow> 'a series" where
  "column_at df j = map (\<lambda>i. iat df i j) [0..<length (index df)]"

fun position :: "'k \<Rightarrow> 'k list \<Rightarrow> nat option" where
  "position k [] = None"
| "position k (x # xs) = (if k = x then Some 0 else map_option Suc (position k xs))"

text \<open>
  \<^verbatim>\<open>df[name]\<close>: the column labelled \<open>name\<close>, KeyError without one. The labels of a
  downloaded table are distinct; the lookup takes the first match.
\<close>

definition getitem :: "'a frame \<Rightarrow> string \<Rightarrow> 'a series py" where
  "getitem df name =
     (case position name (level0 (columns df)) of
        None \<Rightarrow> Inl KeyError
      | Some j \<Rightarrow> Inr (column_at df j))"

text \<open>\<^verbatim>\<open>df.iloc[:, 0]\<close>: IndexError on a table with no column.\<close>

definition iloc_col0 :: "'a frame \<Rightarrow> 'a series py" where
  "iloc_col0 df = (if level0 (columns df) = [] then Inl IndexError else Inr (column_at df 0))"

text \<open>\<^verbatim>\<open>s.iloc[-1]\<close>: IndexError on an empty Series.\<close>

definition iloc_last :: "'a series \<Rightarrow> 'a option py" where
  "iloc_last s = (case s of [] \<Rightarrow> Inl IndexError | _ # _ \<Rightarrow> Inr (last s))"

definition dropna :: "'a series \<Rightarrow> 'a series" where
  "dropna s = filter (\<lambda>c. c \<noteq> None) s"

definition series_empty :: "'a series \<Rightarrow> bool" where
  "series_empty s = (s = [])"

section \<open>The result normalizer: \<^verbatim>\<open>safe_ta_function\<close>\<close>

text \<open>
  What the computation handed to \<^verbatim>\<open>safe_ta_function\<close> returns when it returns:
  \<^verbatim>\<open>None\<close>, a DataFrame, a Series, or anything else (a scalar).
\<close>

datatype 'a result =
    NoneResult
  | DataFrame "'a frame"
  | Series "'a series"
  | Scalar "'a option"

text \<open>
  \<open>func\<close> is the outcome of the call \<^verbatim>\<open>func(*args, **kwargs)\<close>: the exception it raises
  or the result it returns.
\<close>

definition safe_ta_function :: "'a result py \<Rightarrow> 'a option py" where
  "safe_ta_function func =
     try_except_Exception
       (bind_py func (\<lambda>result.
          case result of
            NoneResult \<Rightarrow> Inr nan
          | DataFrame df \<Rightarrow>
              if \<not> frame_empty df then
                bind_py (iloc_col0 df) (\<lambda>first_col.
                  let last_valid = dropna first_col
                  in if \<not> series_empty last_valid then iloc_last last_valid else Inr nan)
              else Inr nan
          | Series s \<Rightarrow>
              (let last_valid = dropna s
               in if \<not> series_empty last_valid then iloc_last last_valid else Inr nan)
          | Scalar x \<Rightarrow> Inr x))
       (\<lambda>e. Inr nan)"

section \<open>The snapshot builder: \<^verbatim>\<open>get_indicators_for_date\<close>\<close>

text \<open>
  The external collaborators: the market-data download, the pandas_ta indicators and the
  pandas expressions over whole columns (rolling windows, the arithmetic of Series). Each
  returns its result or raises. Their formulas are no part of this development; what the
  script does with their outcomes is.
\<close>

record 'a collaborators =
  yf_download :: "string \<Rightarrow> int \<Rightarrow> int \<Rightarrow> 'a frame py"
    \<comment> \<open>\<^verbatim>\<open>yf.download(ticker, start=start, end=end, interval="1d", progress=False)\<close>\<close>
  ta_atr :: "'a series \<Rightarrow> 'a series \<Rightarrow> 'a series \<Rightarrow> nat \<Rightarrow> 'a result py"
    \<comment> \<open>\<^verbatim>\<open>ta.atr(high, low, close, length=n)\<close>\<close>
  rolling_std :: "'a series \<Rightarrow> nat \<Rightarrow> 'a series py"
    \<comment> \<open>\<^verbatim>\<open>close.rolling(window=n).std()\<close>\<close>
  ulcer_series :: "'a series \<Rightarrow> 'a series py"
    \<comment> \<open>lines 110-113 up to the final \<^verbatim>\<open>.iloc[-1]\<close>\<close>
  price_distance_expr :: "'a series \<Rightarrow> 'a result py"
    \<comment> \<open>\<^verbatim>\<open>((close - ta.sma(close, length=20)) / ta.sma(close, length=20)) * 100\<close>\<close>
  ta_obv :: "'a series \<Rightarrow> 'a series \<Rightarrow> 'a result py"
    \<comment> \<open>\<^verbatim>\<open>ta.obv(close, volume)\<close>\<close>
  ta_ad :: "'a series \<Rightarrow> 'a series \<Rightarrow> 'a series \<Rightarrow> 'a series \<Rightarrow> 'a result py"
    \<comment> \<open>\<^verbatim>\<open>ta.ad(high, low, close, volume)\<close>\<close>
  ta_pvt :: "'a series \<Rightarrow> 'a series \<Rightarrow> 'a result py"
    \<comment> \<open>\<^verbatim>\<open>ta.pvt(close, volume)\<close>\<close>
  force_index_series :: "'a series \<Rightarrow> 'a series \<Rightarrow> 'a series py"
    \<comment> \<open>\<^verbatim>\<open>(close.diff() * volume).ewm(span=13).mean()\<close>\<close>
  hlc_mean :: "'a series \<Rightarrow> 'a series \<Rightarrow> 'a series \<Rightarrow> 'a result py"
    \<comment> \<open>\<^verbatim>\<open>(high + low + close) / 3\<close>\<close>
  ta_vwap :: "'a series \<Rightarrow> 'a series \<Rightarrow> 'a series \<Rightarrow> 'a series \<Rightarrow> 'a result py"
    \<comment> \<open>\<^verbatim>\<open>ta.vwap(high, low, close, volume)\<close>\<close>
  volume_close_rolling_min :: "'a series \<Rightarrow> 'a series \<Rightarrow> nat \<Rightarrow> 'a series py"
    \<comment> \<open>\<^verbatim>\<open>(volume * close).rolling(window=n).min()\<close>\<close>
  volume_close_rolling_max :: "'a series \<Rightarrow> 'a series \<Rightarrow> nat \<Rightarrow> 'a series py"
    \<comment> \<open>\<^verbatim>\<open>(volume * close).rolling(window=n).max()\<close>\<close>
  to_datetime :: "string \<Rightarrow> int py"
    \<comment> \<open>\<^verbatim>\<open>pd.to_datetime(s)\<close>\<close>

text \<open>
  \<^verbatim>\<open>stock.columns = stock.columns.get_level_values(0)\<close>, done when the labels are a
  MultiIndex.
\<close>

definition flatten_columns :: "'a frame \<Rightarrow> 'a frame" where
  "flatten_columns stock = stock\<lparr>columns := Index (level0 (columns stock))\<rparr>"

text \<open>
  \<^verbatim>\<open>stock.loc[:date]\<close> on the ascending date index the download returns: the bars dated up
  to and including \<open>date\<close>, a prefix of the rows.
\<close>

definition loc_upto :: "'a frame \<Rightarrow> int \<Rightarrow> 'a frame" where
  "loc_upto stock date = stock\<lparr>index := takeWhile (\<lambda>d. d \<le> date) (index stock)\<rparr>"

definition required_cols :: "string list" where
  "required_cols = [''Open'', ''High'', ''Low'', ''Close'', ''Volume'']"

text \<open>The eight computations handed to \<^verbatim>\<open>safe_ta_function\<close>, one per lambda of the source.\<close>

definition lambda_atr :: "'a collaborators \<Rightarrow> 'a frame \<Rightarrow> 'a result py" where
  "lambda_atr ext stock =
     bind_py (getitem stock ''High'') (\<lambda>high.
     bind_py (getitem stock ''Low'') (\<lambda>low.
     bind_py (getitem stock ''Close'') (\<lambda>close.
       ta_atr ext high low close 14)))"

definition lambda_price_distance :: "'a collaborators \<Rightarrow> 'a frame \<Rightarrow> 'a result py" where
  "lambda_price_distance ext stock =
     bind_py (getitem stock ''Close'') (\<lambda>close. price_distance_expr ext close)"

definition lambda_obv :: "'a collaborators \<Rightarrow> 'a frame \<Rightarrow> 'a result py" where
  "lambda_obv ext stock =
     bind_py (getitem stock ''Close'') (\<lambda>close.
     bind_py (getitem stock ''Volume'') (\<lambda>volume.
       ta_obv ext close volume))"

definition lambda_ad :: "'a collaborators \<Rightarrow> 'a frame \<Rightarrow> 'a result py" where
  "lambda_ad ext stock =
     bind_py (getitem stock ''High'') (\<lambda>high.
     bind_py (getitem stock ''Low'') (\<lambda>low.
     bind_py (getitem stock ''Close'') (\<lambda>close.
     bind_py (getitem stock ''Volume'') (\<lambda>volume.
       ta_ad ext high low close volume))))"

definition lambda_pvt :: "'a collaborators \<Rightarrow> 'a frame \<Rightarrow> 'a result py" where
  "lambda_pvt ext stock =
     bind_py (getitem stock ''Close'') (\<lambda>close.
     bind_py (getitem stock ''Volume'') (\<lambda>volume.
       ta_pvt ext close volume))"

definition lambda_hlc3 :: "'a collaborators \<Rightarrow> 'a frame \<Rightarrow> 'a result py" where
  "lambda_hlc3 ext stock =
     bind_py (getitem stock ''High'') (\<lambda>high.
     bind_py (getitem stock ''Low'') (\<lambda>low.
     bind_py (getitem stock ''Close'') (\<lambda>close.
       hlc_mean ext high low close)))"

definition lambda_typical_price :: "'a collaborators \<Rightarrow> 'a frame \<Rightarrow> 'a result py" where
  "lambda_typical_price ext stock =
     bind_py (getitem stock ''High'') (\<lambda>high.
     bind_py (getitem stock ''Low'') (\<lambda>low.
     bind_py (getitem stock ''Close'') (\<lambda>close.
       hlc_mean ext high low close)))"

definition lambda_vwap :: "'a collaborators \<Rightarrow> 'a frame \<Rightarrow> 'a result py" where
  "lambda_vwap ext stock =
     bind_py (getitem stock ''High'') (\<lambda>high.
     bind_py (getitem stock ''Low'') (\<lambda>low.
     bind_py (getitem stock ''Close'') (\<lambda>close.
     bind_py (getitem stock ''Volume'') (\<lambda>volume.
       ta_vwap ext high low close volume))))"

text \<open>The values computed with no wrapper of their own (lines 105, 151 and 152).\<close>

definition std_dev_expr :: "'a collaborators \<Rightarrow> 'a frame \<Rightarrow> 'a option py" where
  "std_dev_expr ext stock =
     bind_py (getitem stock ''Close'') (\<lambda>close.
     bind_py (rolling_std ext close 20) iloc_last)"

definition volume_close_min_expr :: "'a collaborators \<Rightarrow> 'a frame \<Rightarrow> 'a option py" where
  "volume_close_min_expr ext stock =
     bind_py (getitem stock ''Volume'') (\<lambda>volume.
     bind_py (getitem stock ''Close'') (\<lambda>close.
     bind_py (volume_close_rolling_min ext volume close 20) iloc_last))"

definition volume_close_max_expr :: "'a collaborators \<Rightarrow> 'a frame \<Rightarrow> 'a option py" where
  "volume_close_max_expr ext stock =
     bind_py (getitem stock ''Volume'') (\<lambda>volume.
     bind_py (getitem stock ''Close'') (\<lambda>close.
     bind_py (volume_close_rolling_max ext volume close 20) iloc_last))"

text \<open>The two values computed inside a \<^verbatim>\<open>try\<close> of their own (lines 108-117 and 132-141).\<close>

definition ulcer_index_block :: "'a collaborators \<Rightarrow> 'a frame \<Rightarrow> 'a option py" where
  "ulcer_index_block ext stock =
     try_except_Exception
       (bind_py (getitem stock ''Close'') (\<lambda>close_prices.
        bind_py (ulcer_series ext close_prices) iloc_last))
       (\<lambda>e. Inr nan)"

definition force_index_block :: "'a collaborators \<Rightarrow> 'a frame \<Rightarrow> 'a option py" where
  "force_index_block ext stock =
     try_except_Exception
       (bind_py (getitem stock ''Close'') (\<lambda>close.
        bind_py (getitem stock ''Volume'') (\<lambda>volume.
        bind_py (force_index_series ext close volume) iloc_last)))
       (\<lambda>e. Inr nan)"

text \<open>
  \<^verbatim>\<open>stock[name].iloc[-1] if not stock[name].empty else np.nan\<close> (lines 158-162): the
  condition is evaluated first.
\<close>

definition last_bar_value :: "'a frame \<Rightarrow> string \<Rightarrow> 'a option py" where
  "last_bar_value stock name =
     bind_py (getitem stock name) (\<lambda>col.
       if \<not> series_empty col then bind_py (getitem stock name) iloc_last else Inr nan)"

text \<open>
  A snapshot is the dictionary the builder returns, in insertion order; its values are the
  ticker, the date and numbers (or NaN).
\<close>

datatype 'a pyval = Str string | Timestamp int | Float "'a option"

type_synonym 'a snapshot = "(string \<times> 'a pyval) list"

text \<open>Lines 101-191: the indicators over the validated series, and the dictionary.\<close>

definition compute_indicators ::
  "'a collaborators \<Rightarrow> string \<Rightarrow> int \<Rightarrow> 'a frame \<Rightarrow> 'a snapshot option py" where
  "compute_indicators ext ticker date stock =
     bind_py (safe_ta_function (lambda_atr ext stock)) (\<lambda>atr.
     bind_py (std_dev_expr ext stock) (\<lambda>std_dev.
     bind_py (ulcer_index_block ext stock) (\<lambda>ulcer_index.
     bind_py (safe_ta_function (lambda_price_distance ext stock)) (\<lambda>price_distance.
     bind_py (safe_ta_function (lambda_obv ext stock)) (\<lambda>obv.
     bind_py (safe_ta_function (lambda_ad ext stock)) (\<lambda>ad_line.
     bind_py (safe_ta_function (lambda_pvt ext stock)) (\<lambda>pvt.
     bind_py (force_index_block ext stock) (\<lambda>force_index.
     bind_py (safe_ta_function (lambda_hlc3 ext stock)) (\<lambda>hlc3.
     bind_py (safe_ta_function (lambda_typical_price ext stock)) (\<lambda>typical_price.
     bind_py (safe_ta_function (lambda_vwap ext stock)) (\<lambda>vwap.
     bind_py (volume_close_min_expr ext stock) (\<lambda>volume_close_min.
     bind_py (volume_close_max_expr ext stock) (\<lambda>volume_close_max.
     bind_py (last_bar_value stock ''Open'') (\<lambda>last_open.
     bind_py (last_bar_value stock ''High'') (\<lambda>last_high.
     bind_py (last_bar_value stock ''Low'') (\<lambda>last_low.
     bind_py (last_bar_value stock ''Close'') (\<lambda>last_close.
     bind_py (last_bar_value stock ''Volume'') (\<lambda>last_volume.
       Inr (Some
         [(''ticker'', Str ticker),
          (''date'', Timestamp date),
          (''last_open'', Float last_open),
          (''last_high'', Float last_high),
          (''last_low'', Float last_low),
          (''last_close'', Float last_close),
          (''last_volume'', Float last_volume),
          (''atr'', Float atr),
          (''std_dev'', Float std_dev),
          (''ulcer_index'', Float ulcer_index),
          (''price_distance'', Float price_distance),
          (''obv'', Float obv),
          (''ad_line'', Float ad_line),
          (''pvt'', Float pvt),
          (''force_index'', Float force_index),
          (''hlc3'', Float hlc3),
          (''typical_price'', Float typical_price),
          (''vwap'', Float vwap),
          (''volume_close_min'', Float volume_close_min),
          (''volume_close_max'', Float volume_close_max)])))))))))))))))))))"

text \<open>
  The builder. \<open>Inr None\<close> is the \<^verbatim>\<open>None\<close> it returns for a request it cannot serve;
  \<open>Inl\<close> is an exception its \<^verbatim>\<open>except Exception\<close> does not catch.
\<close>

definition get_indicators_for_date ::
  "'a collaborators \<Rightarrow> string \<Rightarrow> int \<Rightarrow> int \<Rightarrow> 'a snapshot option py" where
  "get_indicators_for_date ext ticker date window_days =
     (let start = date - window_days;
          end_date = date + 1
      in try_except_Exception
           (bind_py (yf_download ext ticker start end_date) (\<lambda>stock.
              if frame_empty stock then Inr None
              else
                let stock = (case columns stock of
                               MultiIndex _ \<Rightarrow> flatten_columns stock
                             | Index _ \<Rightarrow> stock)
                in if \<not> list_all (\<lambda>col. col \<in> set (level0 (columns stock))) required_cols
                   then Inr None
                   else
                     let stock = loc_upto stock date
                     in if frame_empty stock then Inr None
                        else if length (index stock) < 20 then Inr None
                        else compute_indicators ext ticker date stock))
           (\<lambda>e. Inr None))"

text \<open>
  Names for the statements below: the series as it stands after the flattening and the
  truncation, the four checks of lines 70-95 on a downloaded series, and the keys of the
  dictionary in the order the builder inserts them.
\<close>

definition prepare_series :: "'a frame \<Rightarrow> int \<Rightarrow> 'a frame" where
  "prepare_series stock date =
     loc_upto (case columns stock of
                 MultiIndex _ \<Rightarrow> flatten_columns stock
               | Index _ \<Rightarrow> stock) date"

definition passes_validation :: "'a frame \<Rightarrow> int \<Rightarrow> bool" where
  "passes_validation stock date =
     (\<not> frame_empty stock \<and>
      list_all (\<lambda>col. col \<in> set (level0 (columns (prepare_series stock date)))) required_cols \<and>
      \<not> frame_empty (prepare_series stock date) \<and>
      20 \<le> length (index (prepare_series stock date)))"

definition snapshot_fields :: "string list" where
  "snapshot_fields =
     [''ticker'', ''date'', ''last_open'', ''last_high'', ''last_low'', ''last_close'',
      ''last_volume'', ''atr'', ''std_dev'', ''ulcer_index'', ''price_distance'', ''obv'',
      ''ad_line'', ''pvt'', ''force_index'', ''hlc3'', ''typical_price'', ''vwap'',
      ''volume_close_min'', ''volume_close_max'']"

section \<open>The output table writer: \<^verbatim>\<open>save_indicators_incrementally\<close>\<close>

text \<open>
  The destination file is \<open>None\<close> while it does not exist, and otherwise the list of its
  lines: a header line of column names, or a data row of values.
\<close>

datatype 'a line = Header "string list" | Row "'a pyval list"

type_synonym 'a csv_file = "'a line list option"

text \<open>
  \<^verbatim>\<open>pd.DataFrame(indicators_data)\<close> on a list of dictionaries: the columns are the keys in
  the order they are first seen, and a dictionary without a key gets NaN there.
\<close>

fun first_seen :: "'k list \<Rightarrow> 'k list \<Rightarrow> 'k list" where
  "first_seen seen [] = []"
| "first_seen seen (k # ks) =
     (if k \<in> set seen then first_seen seen ks else k # first_seen (k # seen) ks)"

definition batch_columns :: "'a snapshot list \<Rightarrow> string list" where
  "batch_columns indicators_data = first_seen [] (concat (map (map fst) indicators_data))"

definition record_row :: "string list \<Rightarrow> 'a snapshot \<Rightarrow> 'a pyval list" where
  "record_row cols snap =
     map (\<lambda>k. case map_of snap k of None \<Rightarrow> Float nan | Some v \<Rightarrow> v) cols"

definition batch_rows :: "'a snapshot list \<Rightarrow> 'a line list" where
  "batch_rows indicators_data =
     map (\<lambda>snap. Row (record_row (batch_columns indicators_data) snap)) indicators_data"

text \<open>
  Mode \<^verbatim>\<open>'w'\<close> replaces the file by the header and the rows; mode \<^verbatim>\<open>'a'\<close> with
  \<^verbatim>\<open>header=False\<close> adds the rows at the end of the file, which it creates when there is
  none. Writes that fail (a full disk, a missing directory) are outside this model.
\<close>

definition save_indicators_incrementally ::
  "'a snapshot list \<Rightarrow> 'a csv_file \<Rightarrow> bool \<Rightarrow> 'a csv_file" where
  "save_indicators_incrementally indicators_data output_file is_first_batch =
     (if indicators_data = [] then output_file
      else if is_first_batch then
        Some (Header (batch_columns indicators_data) # batch_rows indicators_data)
      else
        Some ((case output_file of None \<Rightarrow> [] | Some old_lines \<Rightarrow> old_lines)
              @ batch_rows indicators_data))"

section \<open>The batch driver: \<^verbatim>\<open>enrich_dataset_with_indicators\<close>\<close>

text \<open>
  An input row carries the two columns the driver reads: \<^verbatim>\<open>ticker\<close>, and \<^verbatim>\<open>time\<close> as a
  string still to be parsed or as a timestamp.
\<close>

datatype time_cell = TimeStr string | TimeObj int

record input_row =
  row_ticker :: string
  row_time :: time_cell

text \<open>
  The state of a run: the destination file and the counters. The console output and the
  pause after each request (\<^verbatim>\<open>time.sleep(delay)\<close>) are not modelled.
\<close>

record 'a progress =
  output_file :: "'a csv_file"
  processed_records :: nat
  successful_fetches :: nat
  failed_fetches :: nat
  batch_count :: nat

text \<open>Lines 278-283: the date of the row, and the call of the builder with its default window.\<close>

definition row_date :: "'a collaborators \<Rightarrow> input_row \<Rightarrow> int py" where
  "row_date ext row =
     (case row_time row of
        TimeStr s \<Rightarrow> to_datetime ext s
      | TimeObj d \<Rightarrow> Inr d)"

definition fetch_row :: "'a collaborators \<Rightarrow> input_row \<Rightarrow> 'a snapshot option py" where
  "fetch_row ext row =
     bind_py (row_date ext row) (\<lambda>date_obj.
       get_indicators_for_date ext (row_ticker row) date_obj 90)"

text \<open>
  The inner loop (lines 272-293) over the rows of one batch. An exception leaves the loop
  with the file as it is; the snapshots gathered so far are lost with it.
\<close>

fun process_rows ::
  "'a collaborators \<Rightarrow> input_row list \<Rightarrow> 'a snapshot list \<Rightarrow> 'a progress \<Rightarrow>
   'a snapshot list py \<times> 'a progress" where
  "process_rows ext [] batch_indicators st = (Inr batch_indicators, st)"
| "process_rows ext (row # rows) batch_indicators st =
     (let st = st\<lparr>processed_records := processed_records st + 1\<rparr>
      in case fetch_row ext row of
           Inl e \<Rightarrow> (Inl e, st)
         | Inr (Some result) \<Rightarrow>
             process_rows ext rows (batch_indicators @ [result])
               (st\<lparr>successful_fetches := successful_fetches st + 1\<rparr>)
         | Inr None \<Rightarrow>
             process_rows ext rows batch_indicators
               (st\<lparr>failed_fetches := failed_fetches st + 1\<rparr>))"

text \<open>
  The outer loop (lines 262-304), \<^verbatim>\<open>for start_idx in range(0, total_records, batch_size)\<close>,
  from \<open>start_idx\<close> on. The driver enters it with a positive \<open>batch_size\<close> only.
\<close>

function process_batches ::
  "'a collaborators \<Rightarrow> input_row list \<Rightarrow> nat \<Rightarrow> nat \<Rightarrow> 'a progress \<Rightarrow>
   exn option \<times> 'a progress" where
  "process_batches ext df batch_size start_idx st =
     (if batch_size = 0 \<or> length df \<le> start_idx then (None, st)
      else
        let end_idx = min (start_idx + batch_size) (length df);
            batch_df = take (end_idx - start_idx) (drop start_idx df);
            st = st\<lparr>batch_count := batch_count st + 1\<rparr>
        in case process_rows ext batch_df [] st of
             (Inl e, st) \<Rightarrow> (Some e, st)
           | (Inr batch_indicators, st) \<Rightarrow>
               process_batches ext df batch_size (start_idx + batch_size)
                 (if batch_indicators \<noteq> [] then
                    (let is_first_batch = (batch_count st = 1)
                     in st\<lparr>output_file :=
                          save_indicators_incrementally batch_indicators (output_file st)
                            is_first_batch\<rparr>)
                  else st))"
  by pat_completeness auto
termination
  by (relation "measure (\<lambda>(ext, df, batch_size, start_idx, st). length df - start_idx)") auto

declare process_batches.simps [simp del]

text \<open>
  Lines 317-323: the file is read back and six columns are selected by name, which raises
  KeyError unless the first line of the file is a header with these names (read back, a
  first line of data gives its values as column names).
\<close>

definition sample_columns :: "string list" where
  "sample_columns = [''ticker'', ''date'', ''atr'', ''obv'', ''pvt'', ''hlc3'']"

definition verify_output :: "'a csv_file \<Rightarrow> exn option" where
  "verify_output f =
     (case f of
        None \<Rightarrow> None
      | Some [] \<Rightarrow> Some (OtherException ''EmptyDataError'')
      | Some (Header cols # _) \<Rightarrow>
          (if list_all (\<lambda>c. c \<in> set cols) sample_columns then None else Some KeyError)
      | Some (Row _ # _) \<Rightarrow> Some KeyError)"

text \<open>
  The driver. \<open>df\<close> is the input table as read, \<open>existing\<close> the destination before the run,
  and \<open>confirmed\<close> says whether the operator answers the overwrite question asked for an
  existing destination with \<^verbatim>\<open>y\<close>. The result is the exception the run ends with, if
  any, and the final state. \<^verbatim>\<open>range\<close> raises ValueError for a step of 0 and is empty for
  a negative step; the summary divides by the number of processed records (line 313).
\<close>

definition enrich_dataset_with_indicators ::
  "'a collaborators \<Rightarrow> input_row list \<Rightarrow> 'a csv_file \<Rightarrow> bool \<Rightarrow> int \<Rightarrow>
   exn option \<times> 'a progress" where
  "enrich_dataset_with_indicators ext df existing confirmed batch_size =
     (let st = \<lparr>output_file = existing, processed_records = 0, successful_fetches = 0,
                failed_fetches = 0, batch_count = 0\<rparr>
      in if existing \<noteq> None \<and> \<not> confirmed then (None, st)
         else
           let st = st\<lparr>output_file := None\<rparr>
           in if batch_size = 0 then (Some ValueError, st)
              else
                case (if batch_size < 0 then (None, st)
                      else process_batches ext df (nat batch_size) 0 st) of
                  (Some e, st) \<Rightarrow> (Some e, st)
                | (None, st) \<Rightarrow>
                    if processed_records st = 0 then (Some ZeroDivisionError, st)
                    else (verify_output (output_file st), st))"

text \<open>The snapshots of the rows the builder serves, in the order of the rows.\<close>

definition snapshots_of :: "'a collaborators \<Rightarrow> input_row list \<Rightarrow> 'a snapshot list" where
  "snapshots_of ext rows =
     concat (map (\<lambda>row. case fetch_row ext row of Inr (Some snap) \<Rightarrow> [snap] | _ \<Rightarrow> []) rows)"

text \<open>The data rows of snapshots with one set of keys: their values in insertion order.\<close>

definition rows_of :: "'a snapshot list \<Rightarrow> 'a line list" where
  "rows_of snaps = map (\<lambda>snap. Row (map snd snap)) snaps"

definition lines_of :: "'a csv_file \<Rightarrow> 'a line list" where
  "lines_of f = (case f of None \<Rightarrow> [] | Some file_lines \<Rightarrow> file_lines)"

definition returns :: "'r py \<Rightarrow> bool" where
  "returns m = (case m of Inl e \<Rightarrow> False | Inr x \<Rightarrow> True)"

definition data_rows :: "'a csv_file \<Rightarrow> 'a line list" where
  "data_rows f =
     (case f of
        None \<Rightarrow> []
      | Some file_lines \<Rightarrow> filter (\<lambda>l. case l of Header _ \<Rightarrow> False | Row _ \<Rightarrow> True) file_lines)"

definition header_lines :: "'a csv_file \<Rightarrow> 'a line list" where
  "header_lines f =
     (case f of
        None \<Rightarrow> []
      | Some file_lines \<Rightarrow> filter (\<lambda>l. case l of Header _ \<Rightarrow> True | Row _ \<Rightarrow> False) file_lines)"

text \<open>Whether the builder served a request (returned a snapshot and not \<^verbatim>\<open>None\<close>).\<close>

definition succeeded :: "'a snapshot option py \<Rightarrow> bool" where
  "succeeded m = (case m of Inr (Some snap) \<Rightarrow> True | _ \<Rightarrow> False)"

section \<open>A worked example\<close>

text \<open>
  Twenty daily bars, dated 1 to 20, with the cell of row \<open>i\<close> in column \<open>j\<close> holding
  \<open>100 * (j + 1) + i\<close>; collaborators that return this table for the ticker AAA, fail for
  ERR and have no data for any other ticker; and indicator results of every shape: a
  Series with missing entries, a table, a scalar, \<^verbatim>\<open>None\<close>, and two that raise. On this
  table (high + low + close) / 3 is the low column.
\<close>

definition demo_stock :: "int frame" where
  "demo_stock =
     \<lparr>index = [1, 2, 3, 4, 5, 6, 7, 8, 9, 10, 11, 12, 13, 14, 15, 16, 17, 18, 19, 20],
      columns = Index [''Open'', ''High'', ''Low'', ''Close'', ''Volume''],
      iat = (\<lambda>i j. Some (100 * (int j + 1) + int i))\<rparr>"

definition no_data :: "int frame" where
  "no_data = \<lparr>index = [], columns = Index [], iat = (\<lambda>i j. None)\<rparr>"

definition demo_vwap :: "int frame" where
  "demo_vwap =
     \<lparr>index = [19, 20],
      columns = Index [''VWAP_D'', ''BAND''],
      iat = (\<lambda>i j. if i = 0 \<and> j = 0 then Some 9 else None)\<rparr>"

definition demo_ext :: "int collaborators" where
  "demo_ext =
     \<lparr>yf_download = (\<lambda>ticker start end_date.
         if ticker = ''AAA'' then Inr demo_stock
         else if ticker = ''ERR'' then Inl (OtherException ''ConnectionError'')
         else Inr no_data),
      ta_atr = (\<lambda>high low close n. Inr (Series [None, Some 7, None])),
      rolling_std = (\<lambda>close n. Inr [None, Some 2]),
      ulcer_series = (\<lambda>close. Inl ZeroDivisionError),
      price_distance_expr = (\<lambda>close. Inl (OtherException ''TypeError'')),
      ta_obv = (\<lambda>close volume. Inr (Series close)),
      ta_ad = (\<lambda>high low close volume. Inr NoneResult),
      ta_pvt = (\<lambda>close volume. Inr (Scalar (Some 5))),
      force_index_series = (\<lambda>close volume. Inr volume),
      hlc_mean = (\<lambda>high low close. Inr (Series low)),
      ta_vwap = (\<lambda>high low close volume. Inr (DataFrame demo_vwap)),
      volume_close_rolling_min = (\<lambda>volume close n. Inr [Some 3]),
      volume_close_rolling_max = (\<lambda>volume close n. Inr [Some 4]),
      to_datetime = (\<lambda>s. if s = ''2024-01-20'' then Inr 20 else Inl ValueError)\<rparr>"

definition row_AAA :: input_row where
  "row_AAA = \<lparr>row_ticker = ''AAA'', row_time = TimeStr ''2024-01-20''\<rparr>"

definition row_ZZZ :: input_row where
  "row_ZZZ = \<lparr>row_ticker = ''ZZZ'', row_time = TimeObj 20\<rparr>"

definition snapshot_AAA :: "int snapshot" where
  "snapshot_AAA =
     [(''ticker'', Str ''AAA''),
      (''date'', Timestamp 20),
      (''last_open'', Float (Some 119)),
      (''last_high'', Float (Some 219)),
      (''last_low'', Float (Some 319)),
      (''last_close'', Float (Some 419)),
      (''last_volume'', Float (Some 519)),
      (''atr'', Float (Some 7)),
      (''std_dev'', Float (Some 2)),
      (''ulcer_index'', Float nan),
      (''price_distance'', Float nan),
      (''obv'', Float (Some 419)),
      (''ad_line'', Float nan),
      (''pvt'', Float (Some 5)),
      (''force_index'', Float (Some 519)),
      (''hlc3'', Float (Some 319)),
      (''typical_price'', Float (Some 319)),
      (''vwap'', Float (Some 9)),
      (''volume_close_min'', Float (Some 3)),
      (''volume_close_max'', Float (Some 4))]"

text \<open>
  Two more requests for AAA: one five days after the last bar, served with the same bars,
  and one at day 10, for which only ten bars remain.
\<close>

definition row_AAA_25 :: input_row where
  "row_AAA_25 = \<lparr>row_ticker = ''AAA'', row_time = TimeObj 25\<rparr>"

definition snapshot_AAA_25 :: "int snapshot" where
  "snapshot_AAA_25 = snapshot_AAA[1 := (''date'', Timestamp 25)]"

definition row_short :: input_row where
  "row_short = \<lparr>row_ticker = ''AAA'', row_time = TimeObj 10\<rparr>"

text \<open>A request for a ticker without data, its date a string as read from the input file.\<close>

definition row_ZZZ_str :: input_row where
  "row_ZZZ_str = \<lparr>row_ticker = ''ZZZ'', row_time = TimeStr ''2024-01-20''\<rparr>"

section \<open>Basic facts\<close>

lemma bind_py_Inr_iff: "bind_py m f = Inr r \<longleftrightarrow> (\<exists>x. m = Inr x \<and> f x = Inr r)"
  by (cases m) (simp_all add: bind_py_def)

lemma bind_py_simps:
  "bind_py (Inl e) f = Inl e"
  "bind_py (Inr x) f = f x"
  by (simp_all add: bind_py_def)

lemma try_except_simps:
  "try_except_Exception (Inr x) h = Inr x"
  "is_Exception e \<Longrightarrow> try_except_Exception (Inl e) h = h e"
  "\<not> is_Exception e \<Longrightarrow> try_except_Exception (Inl e) h = Inl e"
  by (simp_all add: try_except_Exception_def)

lemma try_except_Inr_iff:
  "try_except_Exception body h = Inr r \<longleftrightarrow>
     body = Inr r \<or> (\<exists>e. body = Inl e \<and> is_Exception e \<and> h e = Inr r)"
  by (cases body) (auto simp: try_except_Exception_def)

lemma iloc_last_nonempty: "s \<noteq> [] \<Longrightarrow> iloc_last s = Inr (last s)"
  by (cases s) (simp_all add: iloc_last_def)

lemma dropna_trailing:
  "list_all (\<lambda>c. c = None) post \<Longrightarrow> dropna (pre @ Some v # post) = dropna pre @ [Some v]"
  by (induction post) (simp_all add: dropna_def)

lemma dropna_all_missing: "list_all (\<lambda>c. c = None) s \<Longrightarrow> dropna s = []"
  by (induction s) (simp_all add: dropna_def)

lemma last_valid_series:
  "list_all (\<lambda>c. c = None) post \<Longrightarrow>
   safe_ta_function (Inr (Series (pre @ Some v # post))) = Inr (Some v)"
  by (simp add: safe_ta_function_def bind_py_simps try_except_simps dropna_trailing
      series_empty_def iloc_last_nonempty)

lemma last_valid_frame:
  assumes "\<not> frame_empty df" and "column_at df 0 = pre @ Some v # post"
    and "list_all (\<lambda>c. c = None) post"
  shows "safe_ta_function (Inr (DataFrame df)) = Inr (Some v)"
proof -
  from assms(1) have "iloc_col0 df = Inr (column_at df 0)"
    by (simp add: frame_empty_def iloc_col0_def)
  with assms show ?thesis
    by (simp add: safe_ta_function_def bind_py_simps try_except_simps dropna_trailing
        series_empty_def iloc_last_nonempty)
qed

lemma no_valid_frame:
  assumes "\<not> frame_empty df" and "list_all (\<lambda>c. c = None) (column_at df 0)"
  shows "safe_ta_function (Inr (DataFrame df)) = Inr nan"
proof -
  from assms(1) have "iloc_col0 df = Inr (column_at df 0)"
    by (simp add: frame_empty_def iloc_col0_def)
  with assms show ?thesis
    by (simp add: safe_ta_function_def bind_py_simps try_except_simps dropna_all_missing
        series_empty_def)
qed

lemma safe_ta_function_caught:
  "is_Exception e \<Longrightarrow> safe_ta_function (Inl e) = Inr nan"
  by (simp add: safe_ta_function_def bind_py_simps try_except_simps)

lemma safe_ta_function_returns:
  "safe_ta_function (Inr result) = Inr nan \<or> (\<exists>v. safe_ta_function (Inr result) = Inr (Some v))"
proof (cases result)
  case NoneResult
  then show ?thesis
    by (simp add: safe_ta_function_def bind_py_simps try_except_simps)
next
  case (DataFrame df)
  have "dropna (column_at df 0) \<noteq> [] \<Longrightarrow> \<exists>v. last (dropna (column_at df 0)) = Some v"
    using last_in_set [of "dropna (column_at df 0)"] by (auto simp: dropna_def)
  with DataFrame show ?thesis
    by (auto simp: safe_ta_function_def bind_py_simps try_except_simps iloc_col0_def
        frame_empty_def series_empty_def iloc_last_nonempty Let_def)
next
  case (Series s)
  have "dropna s \<noteq> [] \<Longrightarrow> \<exists>v. last (dropna s) = Some v"
    using last_in_set [of "dropna s"] by (auto simp: dropna_def)
  with Series show ?thesis
    by (auto simp: safe_ta_function_def bind_py_simps try_except_simps series_empty_def
        iloc_last_nonempty Let_def)
next
  case (Scalar x)
  then show ?thesis
    by (cases x) (simp_all add: safe_ta_function_def bind_py_simps try_except_simps)
qed

lemma position_member: "k \<in> set xs \<Longrightarrow> \<exists>j. position k xs = Some j"
  by (induction xs) auto

lemma column_at_last:
  "index df \<noteq> [] \<Longrightarrow>
   column_at df j \<noteq> [] \<and> last (column_at df j) = iat df (length (index df) - 1) j"
  by (simp add: column_at_def last_map)

section \<open>Facts about the builder\<close>

lemma prepare_series_simps:
  "index (prepare_series stock date) = takeWhile (\<lambda>d. d \<le> date) (index stock)"
  "level0 (columns (prepare_series stock date)) = level0 (columns stock)"
  "iat (prepare_series stock date) = iat stock"
  by (simp_all add: prepare_series_def loc_upto_def flatten_columns_def split: labels.splits)

lemma get_indicators_validated:
  assumes "yf_download ext ticker (date - window_days) (date + 1) = Inr stock"
    and "passes_validation stock date"
  shows "get_indicators_for_date ext ticker date window_days =
           try_except_Exception (compute_indicators ext ticker date (prepare_series stock date))
             (\<lambda>e. Inr None)"
  using assms
  by (simp add: get_indicators_for_date_def passes_validation_def prepare_series_def
      bind_py_simps Let_def loc_upto_def flatten_columns_def split: labels.splits)

lemma get_indicators_rejected:
  assumes "yf_download ext ticker (date - window_days) (date + 1) = Inr stock"
    and "\<not> passes_validation stock date"
  shows "get_indicators_for_date ext ticker date window_days = Inr None"
  using assms
  by (auto simp add: get_indicators_for_date_def passes_validation_def prepare_series_def
      bind_py_simps try_except_simps Let_def loc_upto_def flatten_columns_def
      split: labels.splits)

lemma short_series_fails_validation:
  "length (index (prepare_series stock date)) < 20 \<Longrightarrow> \<not> passes_validation stock date"
  by (simp add: passes_validation_def)

lemma get_indicators_Some:
  assumes "get_indicators_for_date ext ticker date window_days = Inr (Some snap)"
  shows "\<exists>stock. yf_download ext ticker (date - window_days) (date + 1) = Inr stock \<and>
           passes_validation stock date \<and>
           compute_indicators ext ticker date (prepare_series stock date) = Inr (Some snap)"
proof (cases "yf_download ext ticker (date - window_days) (date + 1)")
  case (Inl e)
  with assms show ?thesis
    by (simp add: get_indicators_for_date_def bind_py_simps try_except_Exception_def Let_def
        split: if_splits)
next
  case (Inr stock)
  show ?thesis
  proof (cases "passes_validation stock date")
    case True
    with Inr assms show ?thesis
      by (auto simp: get_indicators_validated try_except_Inr_iff)
  next
    case False
    with Inr assms show ?thesis
      by (simp add: get_indicators_rejected)
  qed
qed

lemma compute_indicators_Inr:
  assumes "compute_indicators ext ticker date stock = Inr r"
  shows "\<exists>atr std_dev ulcer_index price_distance obv ad_line pvt force_index hlc3 typical_price
           vwap volume_close_min volume_close_max last_open last_high last_low last_close
           last_volume.
      safe_ta_function (lambda_hlc3 ext stock) = Inr hlc3 \<and>
      safe_ta_function (lambda_typical_price ext stock) = Inr typical_price \<and>
      std_dev_expr ext stock = Inr std_dev \<and>
      volume_close_min_expr ext stock = Inr volume_close_min \<and>
      volume_close_max_expr ext stock = Inr volume_close_max \<and>
      last_bar_value stock ''Open'' = Inr last_open \<and>
      last_bar_value stock ''High'' = Inr last_high \<and>
      last_bar_value stock ''Low'' = Inr last_low \<and>
      last_bar_value stock ''Close'' = Inr last_close \<and>
      last_bar_value stock ''Volume'' = Inr last_volume \<and>
      r = Some
         [(''ticker'', Str ticker),
          (''date'', Timestamp date),
          (''last_open'', Float last_open),
          (''last_high'', Float last_high),
          (''last_low'', Float last_low),
          (''last_close'', Float last_close),
          (''last_volume'', Float last_volume),
          (''atr'', Float atr),
          (''std_dev'', Float std_dev),
          (''ulcer_index'', Float ulcer_index),
          (''price_distance'', Float price_distance),
          (''obv'', Float obv),
          (''ad_line'', Float ad_line),
          (''pvt'', Float pvt),
          (''force_index'', Float force_index),
          (''hlc3'', Float hlc3),
          (''typical_price'', Float typical_price),
          (''vwap'', Float vwap),
          (''volume_close_min'', Float volume_close_min),
          (''volume_close_max'', Float volume_close_max)]"
  using assms unfolding compute_indicators_def bind_py_Inr_iff by blast

lemma validated_column:
  assumes "passes_validation stock date" and "name \<in> set required_cols"
  shows "\<exists>j. position name (level0 (columns (prepare_series stock date))) = Some j \<and>
           getitem (prepare_series stock date) name = Inr (column_at (prepare_series stock date) j) \<and>
           \<not> series_empty (column_at (prepare_series stock date) j) \<and>
           last_bar_value (prepare_series stock date) name =
             Inr (iat stock (length (index (prepare_series stock date)) - 1) j)"
proof -
  let ?s = "prepare_series stock date"
  from assms have "name \<in> set (level0 (columns ?s))"
    by (auto simp: passes_validation_def list_all_iff)
  then obtain j where j: "position name (level0 (columns ?s)) = Some j"
    using position_member by fastforce
  then have g: "getitem ?s name = Inr (column_at ?s j)"
    by (simp add: getitem_def)
  from assms(1) have "index ?s \<noteq> []"
    by (auto simp: passes_validation_def)
  from column_at_last [OF this, of j]
  have ne: "column_at ?s j \<noteq> []"
    and l: "last (column_at ?s j) = iat stock (length (index ?s) - 1) j"
    by (simp_all add: prepare_series_simps)
  from g ne l have "last_bar_value ?s name = Inr (iat stock (length (index ?s) - 1) j)"
    by (simp add: last_bar_value_def bind_py_simps series_empty_def iloc_last_nonempty)
  with j g ne show ?thesis by (auto simp: series_empty_def)
qed

lemma distinct_snapshot_fields: "distinct snapshot_fields"
  by (simp add: snapshot_fields_def)

lemma get_indicators_keys:
  assumes "get_indicators_for_date ext ticker date window_days = Inr (Some snap)"
  shows "map fst snap = snapshot_fields"
proof -
  from get_indicators_Some [OF assms] obtain stock
    where "compute_indicators ext ticker date (prepare_series stock date) = Inr (Some snap)"
    by blast
  from compute_indicators_Inr [OF this] show ?thesis
    by (elim exE conjE) (simp add: snapshot_fields_def)
qed

lemma fetch_row_keys: "fetch_row ext row = Inr (Some snap) \<Longrightarrow> map fst snap = snapshot_fields"
  by (auto simp: fetch_row_def bind_py_Inr_iff dest: get_indicators_keys)

lemma fetch_row_identifies:
  assumes "fetch_row ext row = Inr (Some snap)"
  shows "map_of snap ''ticker'' = Some (Str (row_ticker row))"
    and "\<exists>d. row_date ext row = Inr d \<and> map_of snap ''date'' = Some (Timestamp d)"
proof -
  from assms obtain d where d: "row_date ext row = Inr d"
    and g: "get_indicators_for_date ext (row_ticker row) d 90 = Inr (Some snap)"
    by (auto simp: fetch_row_def bind_py_Inr_iff)
  from get_indicators_Some [OF g] obtain stock
    where "compute_indicators ext (row_ticker row) d (prepare_series stock d) = Inr (Some snap)"
    by blast
  from compute_indicators_Inr [OF this]
  have "map_of snap ''ticker'' = Some (Str (row_ticker row)) \<and>
        map_of snap ''date'' = Some (Timestamp d)"
    by (elim exE conjE) simp
  with d show "map_of snap ''ticker'' = Some (Str (row_ticker row))"
    and "\<exists>d. row_date ext row = Inr d \<and> map_of snap ''date'' = Some (Timestamp d)"
    by simp_all
qed

section \<open>Facts about the writer\<close>

lemma first_seen_subset: "set ks \<subseteq> set seen \<Longrightarrow> first_seen seen ks = []"
  by (induction ks arbitrary: seen) auto

lemma first_seen_distinct:
  "distinct K \<Longrightarrow> set K \<inter> set seen = {} \<Longrightarrow> set others \<subseteq> set K \<union> set seen \<Longrightarrow>
   first_seen seen (K @ others) = K"
proof (induction K arbitrary: seen)
  case Nil
  then show ?case by (simp add: first_seen_subset)
next
  case (Cons k K)
  from Cons.prems have "first_seen (k # seen) (K @ others) = K"
    by (intro Cons.IH) auto
  with Cons.prems show ?case by simp
qed

lemma map_of_own_keys:
  "distinct (map fst snap) \<Longrightarrow>
   map (\<lambda>k. case map_of snap k of None \<Rightarrow> d | Some v \<Rightarrow> v) (map fst snap) = map snd snap"
proof (induction snap)
  case Nil
  then show ?case by simp
next
  case (Cons p snap)
  obtain k v where p: "p = (k, v)" by (cases p)
  with Cons.prems have "k \<notin> set (map fst snap)" by simp
  then have "map (\<lambda>k'. case map_of (p # snap) k' of None \<Rightarrow> d | Some v \<Rightarrow> v) (map fst snap)
    = map (\<lambda>k'. case map_of snap k' of None \<Rightarrow> d | Some v \<Rightarrow> v) (map fst snap)"
    unfolding p by (intro map_cong refl) auto
  with Cons p show ?case by simp
qed

lemma concat_same_keys:
  "list_all (\<lambda>snap. map fst snap = K) batch \<Longrightarrow> set (concat (map (map fst) batch)) \<subseteq> set K"
  by (induction batch) auto

lemma batch_uniform:
  assumes "distinct K" and "batch \<noteq> []" and "list_all (\<lambda>snap. map fst snap = K) batch"
  shows "batch_columns batch = K"
    and "batch_rows batch = map (\<lambda>snap. Row (map snd snap)) batch"
proof -
  from assms(2) obtain s rest where batch: "batch = s # rest" by (cases batch) auto
  with assms(3) have s: "map fst s = K" and rest: "list_all (\<lambda>snap. map fst snap = K) rest"
    by simp_all
  from concat_same_keys [OF rest]
  have "set (concat (map (map fst) rest)) \<subseteq> set K \<union> set []"
    by (simp only: set_simps Un_empty_right)
  with assms(1) have "first_seen [] (K @ concat (map (map fst) rest)) = K"
    by (intro first_seen_distinct) simp_all
  with batch s show cols: "batch_columns batch = K" by (simp add: batch_columns_def)
  have row: "record_row K snap = map snd snap" if keys: "map fst snap = K"
    for snap :: "'a snapshot"
  proof -
    from keys assms(1) have "distinct (map fst snap)" by simp
    from map_of_own_keys [OF this, of "Float nan"] show ?thesis
      unfolding record_row_def keys [symmetric] .
  qed
  from assms(3) have "\<And>snap. snap \<in> set batch \<Longrightarrow> map fst snap = K"
    by (simp add: list_all_iff)
  then show "batch_rows batch = map (\<lambda>snap. Row (map snd snap)) batch"
    unfolding batch_rows_def cols by (intro map_cong refl) (simp add: row)
qed

lemma save_uniform:
  assumes "batch \<noteq> []" and "list_all (\<lambda>snap. map fst snap = snapshot_fields) batch"
  shows "save_indicators_incrementally batch f first =
     (if first then Some (Header snapshot_fields # rows_of batch)
      else Some (lines_of f @ rows_of batch))"
  using assms batch_uniform [OF distinct_snapshot_fields assms]
  by (simp add: save_indicators_incrementally_def rows_of_def lines_of_def)

lemma rows_of_simps:
  "rows_of [] = []"
  "rows_of (xs @ ys) = rows_of xs @ rows_of ys"
  "length (rows_of xs) = length xs"
  "rows_of xs = [] \<longleftrightarrow> xs = []"
  by (simp_all add: rows_of_def)

lemma length_batch_rows: "length (batch_rows batch) = length batch"
  by (simp add: batch_rows_def)

lemma batch_rows_no_header:
  "filter (\<lambda>l. case l of Header _ \<Rightarrow> True | Row _ \<Rightarrow> False) (batch_rows batch) = []"
  by (simp add: batch_rows_def filter_map o_def)

lemma append_flushes:
  "list_all (\<lambda>b. b \<noteq> []) later \<Longrightarrow>
   foldl (\<lambda>f b. save_indicators_incrementally b f False) (Some file_lines) later =
     Some (file_lines @ concat (map batch_rows later))"
  by (induction later arbitrary: file_lines) (simp_all add: save_indicators_incrementally_def)

lemma data_rows_simps:
  "data_rows None = []"
  "data_rows (Some (Header cols # rows_of snaps)) = rows_of snaps"
  "data_rows (Some (rows_of snaps)) = rows_of snaps"
  by (simp_all add: data_rows_def rows_of_def filter_map o_def)

section \<open>Facts about the loops and the run\<close>

lemma snapshots_of_keys:
  "list_all (\<lambda>snap. map fst snap = snapshot_fields) (snapshots_of ext rows)"
proof (induction rows)
  case Nil
  then show ?case by (simp add: snapshots_of_def)
next
  case (Cons row rows)
  show ?case
  proof (cases "fetch_row ext row")
    case (Inl e)
    with Cons show ?thesis by (simp add: snapshots_of_def)
  next
    case (Inr r)
    show ?thesis
    proof (cases r)
      case None
      with Inr Cons show ?thesis by (simp add: snapshots_of_def)
    next
      case (Some snap)
      with Inr have "map fst snap = snapshot_fields" by (simp add: fetch_row_keys)
      with Some Inr Cons show ?thesis by (simp add: snapshots_of_def)
    qed
  qed
qed

lemma snapshots_of_simps:
  "snapshots_of ext [] = []"
  "snapshots_of ext (rows @ rows') = snapshots_of ext rows @ snapshots_of ext rows'"
  by (simp_all add: snapshots_of_def)

lemma snapshots_of_Cons:
  "fetch_row ext row = Inr (Some snap) \<Longrightarrow> snapshots_of ext (row # rows) = snap # snapshots_of ext rows"
  "fetch_row ext row = Inr None \<Longrightarrow> snapshots_of ext (row # rows) = snapshots_of ext rows"
  by (simp_all add: snapshots_of_def)

lemma snapshots_of_skip:
  "fetch_row ext row = Inr None \<Longrightarrow>
   snapshots_of ext (pre @ row # post) = snapshots_of ext (pre @ post)"
  by (simp add: snapshots_of_def)

lemma length_snapshots_of: "length (snapshots_of ext rows) \<le> length rows"
  by (induction rows) (auto simp: snapshots_of_def split: sum.splits option.splits)

lemma snapshots_of_succeeded:
  "length (snapshots_of ext rows) = length (filter (\<lambda>row. succeeded (fetch_row ext row)) rows)"
  by (induction rows) (simp_all add: snapshots_of_def succeeded_def split: sum.splits option.splits)

lemma snapshots_of_tickers:
  "map (\<lambda>snap. map_of snap ''ticker'') (snapshots_of ext df) =
   map (\<lambda>row. Some (Str (row_ticker row))) (filter (\<lambda>row. succeeded (fetch_row ext row)) df)"
proof (induction df)
  case Nil
  then show ?case by (simp add: snapshots_of_simps)
next
  case (Cons row df)
  show ?case
  proof (cases "fetch_row ext row")
    case (Inl e)
    with Cons show ?thesis by (simp add: snapshots_of_def succeeded_def)
  next
    case (Inr r)
    show ?thesis
    proof (cases r)
      case None
      with Inr Cons show ?thesis by (simp add: snapshots_of_def succeeded_def)
    next
      case (Some snap)
      with Inr have "fetch_row ext row = Inr (Some snap)" by simp
      from fetch_row_identifies(1) [OF this] Some Inr Cons show ?thesis
        by (simp add: snapshots_of_def succeeded_def)
    qed
  qed
qed

lemma snapshots_of_split:
  "snapshots_of ext (drop start df) =
     snapshots_of ext (take bs (drop start df)) @ snapshots_of ext (drop (start + bs) df)"
proof -
  have "take bs (drop start df) @ drop bs (drop start df) = drop start df"
    by (rule append_take_drop_id)
  moreover have "drop bs (drop start df) = drop (start + bs) df"
    by (simp add: add.commute)
  ultimately have "drop start df = take bs (drop start df) @ drop (start + bs) df"
    by simp
  then show ?thesis
    using snapshots_of_simps(2) [of ext "take bs (drop start df)" "drop (start + bs) df"]
    by simp
qed

lemma process_rows_step:
  "fetch_row ext row = Inr (Some snap) \<Longrightarrow>
   process_rows ext (row # rows) batch st =
     process_rows ext rows (batch @ [snap])
       (st\<lparr>processed_records := processed_records st + 1,
           successful_fetches := successful_fetches st + 1\<rparr>)"
  "fetch_row ext row = Inr None \<Longrightarrow>
   process_rows ext (row # rows) batch st =
     process_rows ext rows batch
       (st\<lparr>processed_records := processed_records st + 1,
           failed_fetches := failed_fetches st + 1\<rparr>)"
  "fetch_row ext row = Inl e \<Longrightarrow>
   process_rows ext (row # rows) batch st =
     (Inl e, st\<lparr>processed_records := processed_records st + 1\<rparr>)"
  by (simp_all add: Let_def)

lemma process_rows_returns:
  "list_all (\<lambda>row. returns (fetch_row ext row)) rows \<Longrightarrow>
   process_rows ext rows batch st =
     (Inr (batch @ snapshots_of ext rows),
      st\<lparr>processed_records := processed_records st + length rows,
         successful_fetches := successful_fetches st + length (snapshots_of ext rows),
         failed_fetches := failed_fetches st + (length rows - length (snapshots_of ext rows))\<rparr>)"
proof (induction rows arbitrary: batch st)
  case Nil
  then show ?case by (simp add: snapshots_of_simps)
next
  case (Cons row rows)
  from Cons.prems obtain r where r: "fetch_row ext row = Inr r"
    by (auto simp: returns_def split: sum.splits)
  from Cons.prems have rest: "list_all (\<lambda>row. returns (fetch_row ext row)) rows" by simp
  note IH = Cons.IH [OF rest]
  show ?case
  proof (cases r)
    case None
    with r have row: "fetch_row ext row = Inr None" by simp
    have "Suc (length rows) - length (snapshots_of ext rows)
        = Suc (length rows - length (snapshots_of ext rows))"
      using length_snapshots_of [of ext rows] by arith
    then show ?thesis
      unfolding process_rows_step(2) [OF row] IH snapshots_of_Cons(2) [OF row]
      by simp
  next
    case (Some snap)
    with r have row: "fetch_row ext row = Inr (Some snap)" by simp
    show ?thesis
      unfolding process_rows_step(1) [OF row] IH snapshots_of_Cons(1) [OF row]
      by simp
  qed
qed

lemma batch_slice:
  "take (min (start + bs) (length df) - start) (drop start df) = take bs (drop start df)"
  by (auto simp: min_def)

lemma list_all_slice:
  "list_all P df \<Longrightarrow> list_all P (take n (drop k df))"
  by (auto simp: list_all_iff dest: in_set_takeD in_set_dropD)

lemma process_batches_step:
  assumes "0 < bs" and "start < length df"
    and "list_all (\<lambda>row. returns (fetch_row ext row)) df"
  shows "process_batches ext df bs start st =
     process_batches ext df bs (start + bs)
       (let batch = snapshots_of ext (take bs (drop start df));
            st2 = st\<lparr>batch_count := batch_count st + 1,
                     processed_records := processed_records st + length (take bs (drop start df)),
                     successful_fetches := successful_fetches st + length batch,
                     failed_fetches := failed_fetches st
                        + (length (take bs (drop start df)) - length batch)\<rparr>
        in if batch \<noteq> [] then
             st2\<lparr>output_file :=
               save_indicators_incrementally batch (output_file st) (batch_count st = 0)\<rparr>
           else st2)"
proof -
  have rows: "list_all (\<lambda>row. returns (fetch_row ext row)) (take bs (drop start df))"
    using assms(3) by (rule list_all_slice)
  show ?thesis
    apply (subst process_batches.simps)
    using assms(1,2)
    apply (simp only: batch_slice Let_def process_rows_returns [OF rows])
    apply (simp add: Let_def)
    done
qed

lemma process_batches_done:
  "length df \<le> start \<Longrightarrow> process_batches ext df bs start st = (None, st)"
  by (subst process_batches.simps) simp

lemma process_batches_all:
  assumes "0 < bs" and "list_all (\<lambda>row. returns (fetch_row ext row)) df"
  shows "fst (process_batches ext df bs start st) = None \<and>
     output_file (snd (process_batches ext df bs start st)) =
       (if snapshots_of ext (drop start df) = [] then output_file st
        else if batch_count st = 0 \<and> snapshots_of ext (take bs (drop start df)) \<noteq> [] then
          Some (Header snapshot_fields # rows_of (snapshots_of ext (drop start df)))
        else Some (lines_of (output_file st) @ rows_of (snapshots_of ext (drop start df)))) \<and>
     processed_records (snd (process_batches ext df bs start st)) =
       processed_records st + (length df - start) \<and>
     successful_fetches (snd (process_batches ext df bs start st)) =
       successful_fetches st + length (snapshots_of ext (drop start df)) \<and>
     failed_fetches (snd (process_batches ext df bs start st)) =
       failed_fetches st + (length df - start - length (snapshots_of ext (drop start df)))"
proof (induction "length df - start" arbitrary: start st rule: less_induct)
  case less
  show ?case
  proof (cases "length df \<le> start")
    case True
    then show ?thesis
      by (simp add: process_batches_done snapshots_of_simps)
  next
    case False
    then have start: "start < length df" by simp
    define A where "A = snapshots_of ext (take bs (drop start df))"
    define B where "B = snapshots_of ext (drop (start + bs) df)"
    define k where "k = length (take bs (drop start df))"
    define st2 where "st2 = st\<lparr>batch_count := batch_count st + 1,
                     processed_records := processed_records st + k,
                     successful_fetches := successful_fetches st + length A,
                     failed_fetches := failed_fetches st + (k - length A)\<rparr>"
    define st3 where "st3 = (if A \<noteq> [] then
             st2\<lparr>output_file :=
               save_indicators_incrementally A (output_file st) (batch_count st = 0)\<rparr>
           else st2)"
    have step: "process_batches ext df bs start st = process_batches ext df bs (start + bs) st3"
      unfolding process_batches_step [OF assms(1) start assms(2)] st3_def st2_def A_def k_def
      by (simp only: Let_def)
    have AB: "snapshots_of ext (drop start df) = A @ B"
      unfolding A_def B_def by (rule snapshots_of_split)
    have keysA: "list_all (\<lambda>snap. map fst snap = snapshot_fields) A"
      unfolding A_def by (rule snapshots_of_keys)
    have lenA: "length A \<le> k" unfolding A_def k_def by (rule length_snapshots_of)
    have lenB: "length B \<le> length df - (start + bs)"
      unfolding B_def using length_snapshots_of [of ext "drop (start + bs) df"] by simp
    have k: "k = min bs (length df - start)" unfolding k_def by simp
    have file3: "output_file st3 =
        (if A = [] then output_file st
         else if batch_count st = 0 then Some (Header snapshot_fields # rows_of A)
         else Some (lines_of (output_file st) @ rows_of A))"
      unfolding st3_def st2_def using save_uniform [OF _ keysA] by simp
    have fields3: "batch_count st3 = batch_count st + 1"
      "processed_records st3 = processed_records st + k"
      "successful_fetches st3 = successful_fetches st + length A"
      "failed_fetches st3 = failed_fetches st + (k - length A)"
      unfolding st3_def st2_def by simp_all
    from assms(1) start have "length df - (start + bs) < length df - start" by arith
    note IH = less [OF this, of st3, folded B_def]
    have nxt: "snapshots_of ext (take bs (drop (start + bs) df)) \<noteq> [] \<Longrightarrow> B \<noteq> []"
      using snapshots_of_split [of ext "start + bs" df bs] unfolding B_def by simp
    from IH have res:
      "fst (process_batches ext df bs (start + bs) st3) = None"
      "output_file (snd (process_batches ext df bs (start + bs) st3)) =
         (if B = [] then output_file st3 else Some (lines_of (output_file st3) @ rows_of B))"
      "processed_records (snd (process_batches ext df bs (start + bs) st3)) =
         processed_records st3 + (length df - (start + bs))"
      "successful_fetches (snd (process_batches ext df bs (start + bs) st3)) =
         successful_fetches st3 + length B"
      "failed_fetches (snd (process_batches ext df bs (start + bs) st3)) =
         failed_fetches st3 + (length df - (start + bs) - length B)"
      by (simp_all add: fields3)
    have "fst (process_batches ext df bs start st) = None"
      unfolding step by (rule res(1))
    moreover have "output_file (snd (process_batches ext df bs start st)) =
       (if A @ B = [] then output_file st
        else if batch_count st = 0 \<and> A \<noteq> [] then
          Some (Header snapshot_fields # rows_of (A @ B))
        else Some (lines_of (output_file st) @ rows_of (A @ B)))"
      unfolding step res(2) file3
      by (simp add: rows_of_simps lines_of_def)
    moreover have "processed_records (snd (process_batches ext df bs start st)) =
       processed_records st + (length df - start)"
      unfolding step res(3) fields3 k using start assms(1) by arith
    moreover have "successful_fetches (snd (process_batches ext df bs start st)) =
       successful_fetches st + length (A @ B)"
      unfolding step res(4) fields3 by simp
    moreover have "failed_fetches (snd (process_batches ext df bs start st)) =
       failed_fetches st + (length df - start - length (A @ B))"
      unfolding step res(5) fields3 length_append using start assms(1) lenA lenB k by arith
    ultimately show ?thesis
      unfolding AB A_def [symmetric] by blast
  qed
qed

lemma enrich_state:
  assumes "0 < batch_size" and "existing = None \<or> confirmed"
    and "list_all (\<lambda>row. returns (fetch_row ext row)) df"
  shows "output_file (snd (enrich_dataset_with_indicators ext df existing confirmed batch_size)) =
       (if snapshots_of ext df = [] then None
        else if snapshots_of ext (take (nat batch_size) df) \<noteq> [] then
          Some (Header snapshot_fields # rows_of (snapshots_of ext df))
        else Some (rows_of (snapshots_of ext df)))"
    and "processed_records (snd (enrich_dataset_with_indicators ext df existing confirmed batch_size))
       = length df"
    and "successful_fetches (snd (enrich_dataset_with_indicators ext df existing confirmed batch_size))
       = length (snapshots_of ext df)"
    and "failed_fetches (snd (enrich_dataset_with_indicators ext df existing confirmed batch_size))
       = length df - length (snapshots_of ext df)"
proof -
  define st0 :: "'a progress" where
    "st0 = \<lparr>output_file = None, processed_records = 0, successful_fetches = 0,
            failed_fetches = 0, batch_count = 0\<rparr>"
  from assms(1) have bs: "0 < nat batch_size" by simp
  note all = process_batches_all [OF bs assms(3), of 0 st0]
  obtain st' where run: "process_batches ext df (nat batch_size) 0 st0 = (None, st')"
    using all by (cases "process_batches ext df (nat batch_size) 0 st0") auto
  have snd: "snd (enrich_dataset_with_indicators ext df existing confirmed batch_size) = st'"
    using assms(1,2) run
    by (auto simp: enrich_dataset_with_indicators_def st0_def Let_def)
  from all show
    "output_file (snd (enrich_dataset_with_indicators ext df existing confirmed batch_size)) =
       (if snapshots_of ext df = [] then None
        else if snapshots_of ext (take (nat batch_size) df) \<noteq> [] then
          Some (Header snapshot_fields # rows_of (snapshots_of ext df))
        else Some (rows_of (snapshots_of ext df)))"
    unfolding snd run by (simp add: st0_def lines_of_def)
  from all show "processed_records
      (snd (enrich_dataset_with_indicators ext df existing confirmed batch_size)) = length df"
    unfolding snd run by (simp add: st0_def)
  from all show "successful_fetches
      (snd (enrich_dataset_with_indicators ext df existing confirmed batch_size))
       = length (snapshots_of ext df)"
    unfolding snd run by (simp add: st0_def)
  from all show "failed_fetches
      (snd (enrich_dataset_with_indicators ext df existing confirmed batch_size))
       = length df - length (snapshots_of ext df)"
    unfolding snd run by (simp add: st0_def)
qed

section \<open>The worked example, evaluated\<close>

lemma demo_validated: "passes_validation demo_stock 20"
  by code_simp

lemma demo_prepared:
  "length (index (prepare_series demo_stock 20)) = 20"
  "level0 (columns (prepare_series demo_stock 20)) = [''Open'', ''High'', ''Low'', ''Close'', ''Volume'']"
  by code_simp+

lemma demo_short: "length (index (prepare_series demo_stock 10)) = 10"
  by code_simp

lemma demo_get_AAA: "get_indicators_for_date demo_ext ''AAA'' 20 90 = Inr (Some snapshot_AAA)"
  by code_simp

lemma demo_fetch_AAA: "fetch_row demo_ext row_AAA = Inr (Some snapshot_AAA)"
  by code_simp

lemma demo_fetch_AAA_25: "fetch_row demo_ext row_AAA_25 = Inr (Some snapshot_AAA_25)"
  by code_simp

lemma demo_fetch_ZZZ: "fetch_row demo_ext row_ZZZ = Inr None"
  by code_simp

lemma demo_fetch_ZZZ_str: "fetch_row demo_ext row_ZZZ_str = Inr None"
  by code_simp

section \<open>The claims about the normalizer\<close>

text \<open>
  Claim C2. \<^verbatim>\<open>safe_ta_function\<close> returns NaN when the computation returns \<^verbatim>\<open>None\<close>, an
  empty table, an empty sequence, or a sequence or first column with no entry that is not
  missing; it returns the last entry that is not missing of the first column of a table
  that is not empty, and of a sequence; and it returns a scalar unchanged. A sequence whose
  last present entry is \<open>v\<close> is one of the form \<open>pre @ Some v # post\<close> with every cell of
  \<open>post\<close> missing.
\<close>

theorem safe_ta_function_normalizes:
  fixes df :: "'a frame" and s pre post :: "'a series" and v :: 'a and x :: "'a option"
  shows
  "safe_ta_function (Inr NoneResult :: 'a result py) = Inr nan \<and>
   (frame_empty df \<longrightarrow> safe_ta_function (Inr (DataFrame df)) = Inr nan) \<and>
   safe_ta_function (Inr (Series []) :: 'a result py) = Inr nan \<and>
   (list_all (\<lambda>c. c = None) s \<longrightarrow> safe_ta_function (Inr (Series s)) = Inr nan) \<and>
   (\<not> frame_empty df \<and> list_all (\<lambda>c. c = None) (column_at df 0) \<longrightarrow>
      safe_ta_function (Inr (DataFrame df)) = Inr nan) \<and>
   (\<not> frame_empty df \<and> column_at df 0 = pre @ Some v # post \<and> list_all (\<lambda>c. c = None) post \<longrightarrow>
      safe_ta_function (Inr (DataFrame df)) = Inr (Some v)) \<and>
   (s = pre @ Some v # post \<and> list_all (\<lambda>c. c = None) post \<longrightarrow>
      safe_ta_function (Inr (Series s)) = Inr (Some v)) \<and>
   safe_ta_function (Inr (Scalar x)) = Inr x"
proof -
  have absent: "safe_ta_function (Inr NoneResult :: 'a result py) = Inr nan"
    by (simp add: safe_ta_function_def bind_py_simps try_except_simps)
  have empty_table: "safe_ta_function (Inr (DataFrame df)) = Inr nan" if "frame_empty df"
    using that by (simp add: safe_ta_function_def bind_py_simps try_except_simps)
  have all_missing: "safe_ta_function (Inr (Series s)) = Inr nan"
    if "list_all (\<lambda>c. c = None) s"
    using that
    by (simp add: safe_ta_function_def bind_py_simps try_except_simps dropna_all_missing
        series_empty_def)
  have empty_seq: "safe_ta_function (Inr (Series []) :: 'a result py) = Inr nan"
    by (simp add: safe_ta_function_def bind_py_simps try_except_simps dropna_def
        series_empty_def)
  have scalar: "safe_ta_function (Inr (Scalar x)) = Inr x"
    by (simp add: safe_ta_function_def bind_py_simps try_except_simps)
  show ?thesis
    by (intro conjI impI absent empty_seq scalar)
      (simp_all add: empty_table all_missing no_valid_frame last_valid_frame last_valid_series)
qed

text \<open>
  The theorem at the empty table, at a sequence of missing entries, at a two-column table
  whose first column ends in a missing entry, at a table with nothing but missing entries,
  at a sequence that ends in two missing entries, and at a scalar.
\<close>

theorem safe_ta_function_normalizes_witness:
  "frame_empty no_data \<and>
   safe_ta_function (Inr (DataFrame no_data)) = Inr nan \<and>
   safe_ta_function (Inr (Series [None, None :: int option])) = Inr nan \<and>
   \<not> frame_empty demo_vwap \<and>
   column_at demo_vwap 0 = [] @ Some 9 # [None] \<and>
   safe_ta_function (Inr (DataFrame demo_vwap)) = Inr (Some 9) \<and>
   column_at (demo_vwap\<lparr>columns := Index [''BAND''], iat := (\<lambda>i j. None)\<rparr>) 0 = [None, None] \<and>
   safe_ta_function
     (Inr (DataFrame (demo_vwap\<lparr>columns := Index [''BAND''], iat := (\<lambda>i j. None)\<rparr>))) = Inr nan \<and>
   safe_ta_function (Inr (Series ([Some 1] @ Some 7 # [None, None]))) = Inr (Some (7::int)) \<and>
   safe_ta_function (Inr (Scalar (Some (5::int)))) = Inr (Some 5)"
proof -
  define blank where "blank = demo_vwap\<lparr>columns := Index [''BAND''], iat := (\<lambda>i j. None)\<rparr>"
  have e: "frame_empty no_data" by (simp add: frame_empty_def no_data_def)
  have n: "\<not> frame_empty demo_vwap" by (simp add: frame_empty_def demo_vwap_def)
  have c: "column_at demo_vwap 0 = [] @ Some 9 # [None]"
    by (simp add: column_at_def demo_vwap_def upt_rec)
  have nb: "\<not> frame_empty blank" by (simp add: frame_empty_def demo_vwap_def blank_def)
  have cb: "column_at blank 0 = [None, None]"
    by (simp add: column_at_def demo_vwap_def blank_def upt_rec)
  show ?thesis
    using safe_ta_function_normalizes [of no_data "[None, None]" "[]" 9 "[None]" "Some 5"]
      safe_ta_function_normalizes [of demo_vwap "[Some 1] @ Some 7 # [None, None]" "[]" 9 "[None]" "Some 5"]
      safe_ta_function_normalizes [of demo_vwap "[Some 1] @ Some 7 # [None, None]" "[Some 1]" 7
        "[None, None]" "Some 5"]
      safe_ta_function_normalizes [of blank "[]" "[]" 9 "[None]" "Some 5"]
      e n c nb cb
    unfolding blank_def [symmetric]
    by simp
qed

text \<open>
  Claim C3, as amended. \<^verbatim>\<open>safe_ta_function\<close> returns a value for every computation that
  returns, and NaN for every computation that raises an exception deriving from
  \<open>Exception\<close>; an exception outside that hierarchy (KeyboardInterrupt, SystemExit,
  GeneratorExit) is not caught by \<^verbatim>\<open>except Exception\<close> and reaches the caller.
\<close>

theorem safe_ta_function_catches_Exception:
  "(is_Exception e \<longrightarrow> safe_ta_function (Inl e :: 'a result py) = Inr nan) \<and>
   (\<not> is_Exception e \<longrightarrow> safe_ta_function (Inl e :: 'a result py) = Inl e) \<and>
   (\<exists>v. safe_ta_function (Inr (result :: 'a result)) = Inr v)"
proof -
  have "safe_ta_function (Inl e :: 'a result py) = Inl e" if "\<not> is_Exception e"
    using that by (simp add: safe_ta_function_def bind_py_simps try_except_simps)
  moreover have "\<exists>v. safe_ta_function (Inr result) = Inr v"
    using safe_ta_function_returns [of result] by blast
  ultimately show ?thesis
    by (simp add: safe_ta_function_caught)
qed

theorem safe_ta_function_catches_Exception_witness:
  "is_Exception (OtherException ''DataError'') \<and>
   safe_ta_function (Inl (OtherException ''DataError'') :: int result py) = Inr nan \<and>
   \<not> is_Exception SystemExit \<and>
   safe_ta_function (Inl SystemExit :: int result py) = Inl SystemExit"
  using safe_ta_function_catches_Exception [of "OtherException ''DataError''" "NoneResult :: int result"]
    safe_ta_function_catches_Exception [of SystemExit "NoneResult :: int result"]
  by simp

text \<open>
  Claim C3 as stated fails: an interrupt raised while the indicator is computed leaves
  \<^verbatim>\<open>safe_ta_function\<close> as an exception.
\<close>

theorem safe_ta_function_propagates_KeyboardInterrupt:
  "safe_ta_function (Inl KeyboardInterrupt :: int result py) = Inl KeyboardInterrupt"
  by (simp add: safe_ta_function_def bind_py_simps try_except_simps)

section \<open>The claims about the builder\<close>

text \<open>
  Claim C4 fails on the code. The rolling standard deviation (line 105) and the rolling
  minimum and maximum of volume times close (lines 151-152) are computed with no wrapper
  and no \<^verbatim>\<open>try\<close> of their own, so a failure there reaches the \<^verbatim>\<open>except Exception\<close> of the
  whole builder, which returns \<^verbatim>\<open>None\<close> for the request. In the example the Ulcer index
  fails inside its own \<^verbatim>\<open>try\<close> and only that field is NaN; with a standard deviation or a
  rolling minimum that raises, or a rolling maximum that comes back empty, the request is
  lost.
\<close>

theorem unguarded_std_dev_fails_request:
  "get_indicators_for_date demo_ext ''AAA'' 20 90 = Inr (Some snapshot_AAA) \<and>
   map_of snapshot_AAA ''ulcer_index'' = Some (Float nan) \<and>
   get_indicators_for_date
     (demo_ext\<lparr>rolling_std := (\<lambda>close n. Inl (OtherException ''DataError''))\<rparr>) ''AAA'' 20 90 = Inr None \<and>
   get_indicators_for_date
     (demo_ext\<lparr>volume_close_rolling_min := (\<lambda>volume close n. Inl (OtherException ''DataError''))\<rparr>)
     ''AAA'' 20 90 = Inr None \<and>
   get_indicators_for_date
     (demo_ext\<lparr>volume_close_rolling_max := (\<lambda>volume close n. Inr [])\<rparr>)
     ''AAA'' 20 90 = Inr None"
  by code_simp

text \<open>
  Claim C6. A request whose series has fewer than 20 bars after the truncation to the
  target date gets \<^verbatim>\<open>None\<close> from the builder; the driver counts it as a failure and
  goes on with the batch unchanged; and the data rows of the output table are those of the
  run without the request.
\<close>

theorem insufficient_history_dropped:
  assumes "yf_download ext ticker (date - window_days) (date + 1) = Inr stock"
    and "length (index (prepare_series stock date)) < 20"
  shows "get_indicators_for_date ext ticker date window_days = Inr None \<and>
         (row_ticker row = ticker \<and> row_date ext row = Inr date \<and> window_days = 90 \<longrightarrow>
            process_rows ext (row # rows) batch_indicators st =
              process_rows ext rows batch_indicators
                (st\<lparr>processed_records := processed_records st + 1,
                    failed_fetches := failed_fetches st + 1\<rparr>) \<and>
            (0 < batch_size \<and> (existing = None \<or> confirmed) \<and>
             list_all (\<lambda>row. returns (fetch_row ext row)) (pre @ post) \<longrightarrow>
               data_rows (output_file (snd (enrich_dataset_with_indicators ext (pre @ row # post)
                 existing confirmed batch_size))) = rows_of (snapshots_of ext (pre @ post))))"
proof -
  have none: "get_indicators_for_date ext ticker date window_days = Inr None"
    using assms(1) short_series_fails_validation [OF assms(2)] by (rule get_indicators_rejected)
  have "process_rows ext (row # rows) batch_indicators st =
              process_rows ext rows batch_indicators
                (st\<lparr>processed_records := processed_records st + 1,
                    failed_fetches := failed_fetches st + 1\<rparr>) \<and>
            (0 < batch_size \<and> (existing = None \<or> confirmed) \<and>
             list_all (\<lambda>row. returns (fetch_row ext row)) (pre @ post) \<longrightarrow>
               data_rows (output_file (snd (enrich_dataset_with_indicators ext (pre @ row # post)
                 existing confirmed batch_size))) = rows_of (snapshots_of ext (pre @ post)))"
    if r: "row_ticker row = ticker" "row_date ext row = Inr date" "window_days = 90"
  proof -
    from none r have row: "fetch_row ext row = Inr None"
      by (simp add: fetch_row_def bind_py_simps)
    have "data_rows (output_file (snd (enrich_dataset_with_indicators ext (pre @ row # post)
              existing confirmed batch_size))) = rows_of (snapshots_of ext (pre @ post))"
      if h: "0 < batch_size" "existing = None \<or> confirmed"
        "list_all (\<lambda>row. returns (fetch_row ext row)) (pre @ post)"
    proof -
      from h(3) row have "list_all (\<lambda>row. returns (fetch_row ext row)) (pre @ row # post)"
        by (simp add: returns_def)
      from enrich_state(1) [OF h(1,2) this] show ?thesis
        by (simp add: data_rows_simps rows_of_simps snapshots_of_skip [OF row])
    qed
    with process_rows_step(2) [OF row] show ?thesis by blast
  qed
  with none show ?thesis by blast
qed

theorem insufficient_history_dropped_witness:
  "yf_download demo_ext ''AAA'' (10 - 90) (10 + 1) = Inr demo_stock \<and>
   length (index (prepare_series demo_stock 10)) < 20 \<and>
   get_indicators_for_date demo_ext ''AAA'' 10 90 = Inr None \<and>
   process_rows demo_ext [row_short] []
     \<lparr>output_file = None, processed_records = 3, successful_fetches = 2,
      failed_fetches = 1, batch_count = 1\<rparr> =
     (Inr [], \<lparr>output_file = None, processed_records = 4, successful_fetches = 2,
               failed_fetches = 2, batch_count = 1\<rparr>) \<and>
   data_rows (output_file (snd (enrich_dataset_with_indicators demo_ext
     ([row_AAA] @ row_short # [row_AAA]) None False 2))) = rows_of [snapshot_AAA, snapshot_AAA]"
proof -
  have d: "yf_download demo_ext ''AAA'' (10 - 90) (10 + 1) = Inr demo_stock"
    by (simp add: demo_ext_def)
  have s: "length (index (prepare_series demo_stock 10)) < 20"
    by (simp add: demo_short)
  have r: "row_ticker row_short = ''AAA''" "row_date demo_ext row_short = Inr 10"
    by (simp_all add: row_short_def row_date_def)
  have a: "list_all (\<lambda>row. returns (fetch_row demo_ext row)) ([row_AAA] @ [row_AAA])"
    by (simp add: demo_fetch_AAA returns_def)
  have sn: "snapshots_of demo_ext ([row_AAA] @ [row_AAA]) = [snapshot_AAA, snapshot_AAA]"
    by (simp add: snapshots_of_def demo_fetch_AAA)
  from insufficient_history_dropped [OF d s, of row_short "[]" "[]"
      "\<lparr>output_file = None, processed_records = 3, successful_fetches = 2,
        failed_fetches = 1, batch_count = 1\<rparr>" 2 None False "[row_AAA]"
      "[row_AAA]"] d s r a sn
  show ?thesis by simp
qed

text \<open>
  Claim C8. For a downloaded series that passes the checks of lines 70-95, the series and
  its five columns are not empty, so the fallback to NaN of lines 158-162 is never taken,
  and in every snapshot the builder returns the five fields \<^verbatim>\<open>last_open\<close>, \<^verbatim>\<open>last_high\<close>,
  \<^verbatim>\<open>last_low\<close>, \<^verbatim>\<open>last_close\<close> and \<^verbatim>\<open>last_volume\<close> hold the cells of the last bar.
\<close>

theorem last_bar_fields_present:
  assumes "yf_download ext ticker (date - window_days) (date + 1) = Inr stock"
    and "passes_validation stock date"
  shows "\<exists>jo jh jl jc jv.
     position ''Open'' (level0 (columns (prepare_series stock date))) = Some jo \<and>
     position ''High'' (level0 (columns (prepare_series stock date))) = Some jh \<and>
     position ''Low'' (level0 (columns (prepare_series stock date))) = Some jl \<and>
     position ''Close'' (level0 (columns (prepare_series stock date))) = Some jc \<and>
     position ''Volume'' (level0 (columns (prepare_series stock date))) = Some jv \<and>
     \<not> frame_empty (prepare_series stock date) \<and>
     \<not> series_empty (column_at (prepare_series stock date) jo) \<and>
     \<not> series_empty (column_at (prepare_series stock date) jh) \<and>
     \<not> series_empty (column_at (prepare_series stock date) jl) \<and>
     \<not> series_empty (column_at (prepare_series stock date) jc) \<and>
     \<not> series_empty (column_at (prepare_series stock date) jv) \<and>
     (\<forall>snap. get_indicators_for_date ext ticker date window_days = Inr (Some snap) \<longrightarrow>
        map_of snap ''last_open'' =
          Some (Float (iat stock (length (index (prepare_series stock date)) - 1) jo)) \<and>
        map_of snap ''last_high'' =
          Some (Float (iat stock (length (index (prepare_series stock date)) - 1) jh)) \<and>
        map_of snap ''last_low'' =
          Some (Float (iat stock (length (index (prepare_series stock date)) - 1) jl)) \<and>
        map_of snap ''last_close'' =
          Some (Float (iat stock (length (index (prepare_series stock date)) - 1) jc)) \<and>
        map_of snap ''last_volume'' =
          Some (Float (iat stock (length (index (prepare_series stock date)) - 1) jv)))"
proof -
  let ?s = "prepare_series stock date"
  let ?n = "length (index ?s) - 1"
  from validated_column [OF assms(2), of "''Open''"] obtain jo where
    jo: "position ''Open'' (level0 (columns ?s)) = Some jo"
      "\<not> series_empty (column_at ?s jo)" "last_bar_value ?s ''Open'' = Inr (iat stock ?n jo)"
    by (auto simp: required_cols_def)
  from validated_column [OF assms(2), of "''High''"] obtain jh where
    jh: "position ''High'' (level0 (columns ?s)) = Some jh"
      "\<not> series_empty (column_at ?s jh)" "last_bar_value ?s ''High'' = Inr (iat stock ?n jh)"
    by (auto simp: required_cols_def)
  from validated_column [OF assms(2), of "''Low''"] obtain jl where
    jl: "position ''Low'' (level0 (columns ?s)) = Some jl"
      "\<not> series_empty (column_at ?s jl)" "last_bar_value ?s ''Low'' = Inr (iat stock ?n jl)"
    by (auto simp: required_cols_def)
  from validated_column [OF assms(2), of "''Close''"] obtain jc where
    jc: "position ''Close'' (level0 (columns ?s)) = Some jc"
      "\<not> series_empty (column_at ?s jc)" "last_bar_value ?s ''Close'' = Inr (iat stock ?n jc)"
    by (auto simp: required_cols_def)
  from validated_column [OF assms(2), of "''Volume''"] obtain jv where
    jv: "position ''Volume'' (level0 (columns ?s)) = Some jv"
      "\<not> series_empty (column_at ?s jv)" "last_bar_value ?s ''Volume'' = Inr (iat stock ?n jv)"
    by (auto simp: required_cols_def)
  from assms(2) have ne: "\<not> frame_empty ?s" by (simp add: passes_validation_def)
  have snap: "map_of snap ''last_open'' = Some (Float (iat stock ?n jo)) \<and>
        map_of snap ''last_high'' = Some (Float (iat stock ?n jh)) \<and>
        map_of snap ''last_low'' = Some (Float (iat stock ?n jl)) \<and>
        map_of snap ''last_close'' = Some (Float (iat stock ?n jc)) \<and>
        map_of snap ''last_volume'' = Some (Float (iat stock ?n jv))"
    if "get_indicators_for_date ext ticker date window_days = Inr (Some snap)" for snap
  proof -
    from get_indicators_Some [OF that] assms(1)
    have "compute_indicators ext ticker date ?s = Inr (Some snap)" by auto
    from compute_indicators_Inr [OF this] show ?thesis
      by (elim exE conjE) (simp add: jo(3) jh(3) jl(3) jc(3) jv(3))
  qed
  from jo(1,2) jh(1,2) jl(1,2) jc(1,2) jv(1,2) ne snap show ?thesis by blast
qed

theorem last_bar_fields_present_witness:
  "yf_download demo_ext ''AAA'' (20 - 90) (20 + 1) = Inr demo_stock \<and>
   passes_validation demo_stock 20 \<and>
   get_indicators_for_date demo_ext ''AAA'' 20 90 = Inr (Some snapshot_AAA) \<and>
   map_of snapshot_AAA ''last_open'' = Some (Float (iat demo_stock 19 0)) \<and>
   map_of snapshot_AAA ''last_high'' = Some (Float (iat demo_stock 19 1)) \<and>
   map_of snapshot_AAA ''last_low'' = Some (Float (iat demo_stock 19 2)) \<and>
   map_of snapshot_AAA ''last_close'' = Some (Float (iat demo_stock 19 3)) \<and>
   map_of snapshot_AAA ''last_volume'' = Some (Float (iat demo_stock 19 4))"
proof -
  have d: "yf_download demo_ext ''AAA'' (20 - 90) (20 + 1) = Inr demo_stock"
    by (simp add: demo_ext_def)
  from last_bar_fields_present [OF d demo_validated] obtain jo jh jl jc jv where
    p: "position ''Open'' (level0 (columns (prepare_series demo_stock 20))) = Some jo"
      "position ''High'' (level0 (columns (prepare_series demo_stock 20))) = Some jh"
      "position ''Low'' (level0 (columns (prepare_series demo_stock 20))) = Some jl"
      "position ''Close'' (level0 (columns (prepare_series demo_stock 20))) = Some jc"
      "position ''Volume'' (level0 (columns (prepare_series demo_stock 20))) = Some jv"
    and snap: "\<And>snap. get_indicators_for_date demo_ext ''AAA'' 20 90 = Inr (Some snap) \<Longrightarrow>
        map_of snap ''last_open'' =
          Some (Float (iat demo_stock (length (index (prepare_series demo_stock 20)) - 1) jo)) \<and>
        map_of snap ''last_high'' =
          Some (Float (iat demo_stock (length (index (prepare_series demo_stock 20)) - 1) jh)) \<and>
        map_of snap ''last_low'' =
          Some (Float (iat demo_stock (length (index (prepare_series demo_stock 20)) - 1) jl)) \<and>
        map_of snap ''last_close'' =
          Some (Float (iat demo_stock (length (index (prepare_series demo_stock 20)) - 1) jc)) \<and>
        map_of snap ''last_volume'' =
          Some (Float (iat demo_stock (length (index (prepare_series demo_stock 20)) - 1) jv))"
    by blast
  from p have j: "jo = 0" "jh = 1" "jl = 2" "jc = 3" "jv = 4"
    by (simp_all add: demo_prepared)
  from snap [OF demo_get_AAA] d demo_validated demo_get_AAA show ?thesis
    unfolding j demo_prepared by simp
qed

text \<open>
  Claim C9. In every snapshot the builder returns, \<^verbatim>\<open>hlc3\<close> and \<^verbatim>\<open>typical_price\<close> are two
  keys with the same value, the normalized (high + low + close) / 3 of the same series;
  the keys of the snapshot are distinct, and both are columns of the table written.
\<close>

theorem hlc3_and_typical_price_agree:
  assumes "get_indicators_for_date ext ticker date window_days = Inr (Some snap)"
  shows "\<exists>stock v.
     yf_download ext ticker (date - window_days) (date + 1) = Inr stock \<and>
     safe_ta_function (lambda_hlc3 ext (prepare_series stock date)) = Inr v \<and>
     safe_ta_function (lambda_typical_price ext (prepare_series stock date)) = Inr v \<and>
     map_of snap ''hlc3'' = Some (Float v) \<and>
     map_of snap ''typical_price'' = Some (Float v) \<and>
     distinct (map fst snap) \<and>
     ''hlc3'' \<in> set (batch_columns [snap]) \<and>
     ''typical_price'' \<in> set (batch_columns [snap]) \<and>
     length (record_row (batch_columns [snap]) snap) = length snap"
proof -
  from get_indicators_Some [OF assms] obtain stock
    where d: "yf_download ext ticker (date - window_days) (date + 1) = Inr stock"
      and c: "compute_indicators ext ticker date (prepare_series stock date) = Inr (Some snap)"
    by blast
  from compute_indicators_Inr [OF c] obtain hlc3 typical_price
    where h: "safe_ta_function (lambda_hlc3 ext (prepare_series stock date)) = Inr hlc3"
      and t: "safe_ta_function (lambda_typical_price ext (prepare_series stock date))
                = Inr typical_price"
      and m: "map_of snap ''hlc3'' = Some (Float hlc3)"
        "map_of snap ''typical_price'' = Some (Float typical_price)"
    by (elim exE conjE) simp
  have "lambda_typical_price ext (prepare_series stock date)
      = lambda_hlc3 ext (prepare_series stock date)"
    by (simp add: lambda_typical_price_def lambda_hlc3_def)
  with h t have same: "typical_price = hlc3" by simp
  have keys: "map fst snap = snapshot_fields"
    using assms by (rule get_indicators_keys)
  have cols: "batch_columns [snap] = snapshot_fields"
    using batch_uniform(1) [OF distinct_snapshot_fields, of "[snap]"] keys by simp
  have "distinct (map fst snap)"
    unfolding keys by (rule distinct_snapshot_fields)
  moreover have "''hlc3'' \<in> set snapshot_fields" "''typical_price'' \<in> set snapshot_fields"
    by (simp_all add: snapshot_fields_def)
  moreover have "length (record_row (batch_columns [snap]) snap) = length snap"
    unfolding cols record_row_def keys [symmetric] by simp
  ultimately show ?thesis
    using d h t m same cols by auto
qed

theorem hlc3_and_typical_price_agree_witness:
  "get_indicators_for_date demo_ext ''AAA'' 20 90 = Inr (Some snapshot_AAA) \<and>
   map_of snapshot_AAA ''hlc3'' = Some (Float (Some 319)) \<and>
   map_of snapshot_AAA ''typical_price'' = Some (Float (Some 319)) \<and>
   ''hlc3'' \<in> set (batch_columns [snapshot_AAA]) \<and>
   ''typical_price'' \<in> set (batch_columns [snapshot_AAA])"
  using hlc3_and_typical_price_agree [OF demo_get_AAA]
  by (auto simp: demo_get_AAA snapshot_AAA_def)

section \<open>The claims about the writer and the driver\<close>

text \<open>
  Claim C1. For every input table and every positive batch size, in a run that is not
  cancelled at the overwrite question and in which every request is processed to an
  outcome, the number of data rows of the output file is the number of requests the builder
  served, and so is the counter of successful fetches.
\<close>

theorem batching_keeps_every_success:
  assumes "0 < batch_size" and "existing = None \<or> confirmed"
    and "list_all (\<lambda>row. returns (fetch_row ext row)) df"
  shows "length (data_rows (output_file
           (snd (enrich_dataset_with_indicators ext df existing confirmed batch_size)))) =
         length (filter (\<lambda>row. succeeded (fetch_row ext row)) df) \<and>
         successful_fetches (snd (enrich_dataset_with_indicators ext df existing confirmed batch_size))
           = length (filter (\<lambda>row. succeeded (fetch_row ext row)) df)"
  unfolding enrich_state [OF assms] snapshots_of_succeeded [symmetric]
  by (simp add: data_rows_simps rows_of_simps)

theorem batching_keeps_every_success_witness:
  "length (data_rows (output_file
      (snd (enrich_dataset_with_indicators demo_ext [row_AAA, row_ZZZ, row_AAA] None False 2)))) = 2 \<and>
   length (data_rows (output_file
      (snd (enrich_dataset_with_indicators demo_ext [row_AAA, row_ZZZ, row_AAA] None False 1)))) = 2 \<and>
   length (filter (\<lambda>row. succeeded (fetch_row demo_ext row)) [row_AAA, row_ZZZ, row_AAA]) = 2"
  using batching_keeps_every_success [of 2 None False demo_ext "[row_AAA, row_ZZZ, row_AAA]"]
    batching_keeps_every_success [of 1 None False demo_ext "[row_AAA, row_ZZZ, row_AAA]"]
  by (simp add: demo_fetch_AAA demo_fetch_ZZZ returns_def succeeded_def)

text \<open>
  Claim C5, as amended. In a run whose first batch has no successful snapshot, the first
  batch leaves the destination absent: a run over the first batch alone ends with no file.
  The destination is absent at the end of the whole run exactly when no later batch has a
  successful snapshot either; otherwise a later flush creates it, and its data rows are
  the rows of the successful snapshots, in order.
\<close>

theorem first_batch_without_success:
  assumes "0 < batch_size" and "existing = None \<or> confirmed"
    and "list_all (\<lambda>row. returns (fetch_row ext row)) df"
    and "snapshots_of ext (take (nat batch_size) df) = []"
  shows "output_file (snd (enrich_dataset_with_indicators ext (take (nat batch_size) df)
           existing confirmed batch_size)) = None \<and>
         (output_file (snd (enrich_dataset_with_indicators ext df existing confirmed batch_size))
            = None \<longleftrightarrow> snapshots_of ext df = []) \<and>
         data_rows (output_file
           (snd (enrich_dataset_with_indicators ext df existing confirmed batch_size))) =
           rows_of (snapshots_of ext df)"
proof -
  have "list_all (\<lambda>row. returns (fetch_row ext row)) (take (nat batch_size) (drop 0 df))"
    using assms(3) by (rule list_all_slice)
  then have first: "list_all (\<lambda>row. returns (fetch_row ext row)) (take (nat batch_size) df)"
    by simp
  have "output_file (snd (enrich_dataset_with_indicators ext (take (nat batch_size) df)
           existing confirmed batch_size)) = None"
    unfolding enrich_state(1) [OF assms(1,2) first] using assms(4) by simp
  moreover have "output_file
      (snd (enrich_dataset_with_indicators ext df existing confirmed batch_size)) = None
        \<longleftrightarrow> snapshots_of ext df = []"
    unfolding enrich_state(1) [OF assms(1-3)] by simp
  moreover have "data_rows (output_file
      (snd (enrich_dataset_with_indicators ext df existing confirmed batch_size))) =
        rows_of (snapshots_of ext df)"
    unfolding enrich_state(1) [OF assms(1-3)] by (simp add: data_rows_simps rows_of_simps)
  ultimately show ?thesis by blast
qed

text \<open>
  The theorem at two runs with batches of two requests and a first batch without data: one
  with a third request that is served, and one without.
\<close>

theorem first_batch_without_success_witness:
  "snapshots_of demo_ext (take (nat 2) [row_ZZZ_str, row_ZZZ_str, row_AAA]) = [] \<and>
   output_file (snd (enrich_dataset_with_indicators demo_ext [row_ZZZ_str, row_ZZZ_str]
     None False 2)) = None \<and>
   output_file (snd (enrich_dataset_with_indicators demo_ext [row_ZZZ_str, row_ZZZ_str, row_AAA]
     None False 2)) \<noteq> None \<and>
   data_rows (output_file (snd (enrich_dataset_with_indicators demo_ext
     [row_ZZZ_str, row_ZZZ_str, row_AAA] None False 2))) = [Row (map snd snapshot_AAA)]"
  using first_batch_without_success [of 2 None False demo_ext
      "[row_ZZZ_str, row_ZZZ_str, row_AAA]"]
  by (simp add: demo_fetch_AAA demo_fetch_ZZZ_str returns_def snapshots_of_def rows_of_def)

text \<open>
  Claim C5 as stated fails: with batches of one request, the first request without data
  and the second served, the destination exists at the end of the run and holds the row of
  the second request.
\<close>

theorem first_batch_without_success_counterexample:
  "snapshots_of demo_ext (take 1 [row_ZZZ_str, row_AAA]) = [] \<and>
   output_file (snd (enrich_dataset_with_indicators demo_ext [row_ZZZ_str, row_AAA]
     None False 1)) \<noteq> None \<and>
   data_rows (output_file (snd (enrich_dataset_with_indicators demo_ext [row_ZZZ_str, row_AAA]
     None False 1))) = [Row (map snd snapshot_AAA)]"
  by code_simp

text \<open>
  Claim C7. A first flush with \<^verbatim>\<open>is_first_batch=True\<close> followed by flushes with
  \<^verbatim>\<open>is_first_batch=False\<close>, none of them empty, leaves the header of the first batch,
  its rows and the rows of the later batches in order, whatever the destination held
  before: one header line, and one line more than there are snapshots.
\<close>

theorem header_written_once:
  assumes "first_batch \<noteq> []" and "list_all (\<lambda>b. b \<noteq> []) later" and "later \<noteq> []"
  shows "foldl (\<lambda>f b. save_indicators_incrementally b f False)
           (save_indicators_incrementally first_batch destination True) later =
         Some (Header (batch_columns first_batch) # batch_rows first_batch
               @ concat (map batch_rows later)) \<and>
         header_lines (foldl (\<lambda>f b. save_indicators_incrementally b f False)
           (save_indicators_incrementally first_batch destination True) later) =
           [Header (batch_columns first_batch)] \<and>
         length (lines_of (foldl (\<lambda>f b. save_indicators_incrementally b f False)
           (save_indicators_incrementally first_batch destination True) later)) =
           1 + length (concat (first_batch # later))"
proof -
  have first: "save_indicators_incrementally first_batch destination True =
      Some (Header (batch_columns first_batch) # batch_rows first_batch)"
    using assms(1) by (simp add: save_indicators_incrementally_def)
  have len: "length (concat (map batch_rows bs)) = length (concat bs)" for bs :: "'a snapshot list list"
    by (induction bs) (simp_all add: length_batch_rows)
  have hdr: "filter (\<lambda>l. case l of Header _ \<Rightarrow> True | Row _ \<Rightarrow> False) (concat (map batch_rows bs)) = []"
    for bs :: "'a snapshot list list"
    by (induction bs) (simp_all add: batch_rows_no_header)
  show ?thesis
    unfolding first append_flushes [OF assms(2)]
    by (simp add: header_lines_def lines_of_def len hdr batch_rows_no_header length_batch_rows)
qed

theorem header_written_once_witness:
  "foldl (\<lambda>f b. save_indicators_incrementally b f False)
     (save_indicators_incrementally [snapshot_AAA] (Some [Row [Str ''old'']]) True)
     [[snapshot_AAA, snapshot_AAA]] =
   Some [Header snapshot_fields, Row (map snd snapshot_AAA), Row (map snd snapshot_AAA),
         Row (map snd snapshot_AAA)] \<and>
   length (lines_of (foldl (\<lambda>f b. save_indicators_incrementally b f False)
     (save_indicators_incrementally [snapshot_AAA] (Some [Row [Str ''old'']]) True)
     [[snapshot_AAA, snapshot_AAA]])) = 1 + 3"
proof -
  have c: "batch_columns [snapshot_AAA] = snapshot_fields"
    "batch_rows [snapshot_AAA] = [Row (map snd snapshot_AAA)]"
    "batch_rows [snapshot_AAA, snapshot_AAA] = [Row (map snd snapshot_AAA), Row (map snd snapshot_AAA)]"
    by code_simp+
  from header_written_once [of "[snapshot_AAA]" "[[snapshot_AAA, snapshot_AAA]]"
      "Some [Row [Str ''old'']]"] c
  show ?thesis by (simp add: lines_of_def)
qed

text \<open>
  Claim C10. The data rows of the output file are the rows of the snapshots of the served
  requests in the order of the input table; in particular the tickers of the rows are the
  tickers of the served requests, in input order.
\<close>

theorem output_rows_follow_input_order:
  assumes "0 < batch_size" and "existing = None \<or> confirmed"
    and "list_all (\<lambda>row. returns (fetch_row ext row)) df"
  shows "data_rows (output_file
           (snd (enrich_dataset_with_indicators ext df existing confirmed batch_size))) =
         rows_of (snapshots_of ext df) \<and>
         map (\<lambda>snap. map_of snap ''ticker'') (snapshots_of ext df) =
           map (\<lambda>row. Some (Str (row_ticker row)))
             (filter (\<lambda>row. succeeded (fetch_row ext row)) df)"
  unfolding enrich_state [OF assms] snapshots_of_tickers
  by (simp add: data_rows_simps rows_of_simps)

theorem output_rows_follow_input_order_witness:
  "data_rows (output_file (snd (enrich_dataset_with_indicators demo_ext
      [row_AAA_25, row_ZZZ, row_AAA, row_AAA_25] None False 2))) =
     [Row (map snd snapshot_AAA_25), Row (map snd snapshot_AAA), Row (map snd snapshot_AAA_25)] \<and>
   data_rows (output_file (snd (enrich_dataset_with_indicators demo_ext
      [row_AAA_25, row_ZZZ, row_AAA, row_AAA_25] None False 3))) =
     [Row (map snd snapshot_AAA_25), Row (map snd snapshot_AAA), Row (map snd snapshot_AAA_25)]"
  using output_rows_follow_input_order [of 2 None False demo_ext
      "[row_AAA_25, row_ZZZ, row_AAA, row_AAA_25]"]
    output_rows_follow_input_order [of 3 None False demo_ext
      "[row_AAA_25, row_ZZZ, row_AAA, row_AAA_25]"]
  by (simp add: demo_fetch_AAA demo_fetch_AAA_25 demo_fetch_ZZZ returns_def snapshots_of_def
      rows_of_def)

end
